(* ===== verification/Config_Prelude.thy ===== *)
theory Config_Prelude
  imports Main "HOL-Library.Multiset" "HOL-Library.Word"
begin

text \<open>
  Shared vocabulary of the development: the names of the model's types (identifiers,
  namespaces), the collections of facts the component theories fill, and the generic
  lemmas on association lists and maps that the namespace proofs of every component
  use.  A Python namespace (a module's \<open>__dict__\<close>) is a map from identifiers to
  values; running a sequence of bindings is a left fold of map updates.
\<close>

type_synonym ident = string
type_synonym 'v ns = "ident \<rightharpoonup> 'v"

named_theorems config_defs "definitions of the literal values of the configuration module"
named_theorems ns_simps "rewrite rules for namespaces after a module body has run"

definition bind_all :: "'v ns \<Rightarrow> (ident \<times> 'v) list \<Rightarrow> 'v ns" where
  "bind_all m kvs = foldl (\<lambda>m (k, v). m(k \<mapsto> v)) m kvs"

subsection \<open>Folds of map updates\<close>

lemma bind_all_Nil [simp]: "bind_all m [] = m"
  by (simp add: bind_all_def)

lemma bind_all_Cons [simp]: "bind_all m ((k, v) # kvs) = bind_all (m(k \<mapsto> v)) kvs"
  by (simp add: bind_all_def)

lemma bind_all_append: "bind_all m (xs @ ys) = bind_all (bind_all m xs) ys"
  by (simp add: bind_all_def)

lemma bind_all_map_add: "bind_all m kvs = m ++ map_of (rev kvs)"
proof (induction kvs arbitrary: m rule: rev_induct)
  case Nil
  then show ?case by simp
next
  case (snoc kv kvs)
  obtain k v where kv: "kv = (k, v)" by fastforce
  have "bind_all m (kvs @ [kv]) = (bind_all m kvs)(k \<mapsto> v)"
    by (simp add: bind_all_append kv)
  with snoc.IH show ?case by (simp add: kv fun_eq_iff map_add_def)
qed

lemma map_of_perm_distinct:
  assumes "distinct (map fst xs)" and "mset xs = mset ys"
  shows "map_of xs = map_of ys"
proof -
  from assms(2) have "mset (map fst xs) = mset (map fst ys)"
    by (simp add: mset_map)
  with assms(1) have "distinct (map fst ys)"
    using mset_eq_imp_distinct_iff by blast
  moreover from assms(2) have "set xs = set ys"
    by (metis set_mset_mset)
  ultimately show ?thesis
    using assms(1) by (simp add: map_of_inject_set)
qed

text \<open>
  With distinct keys the order of the bindings does not matter: any permutation of
  the list binds the same map.  This is the fact behind the order independence of a
  module body whose statements assign distinct names.
\<close>

lemma bind_all_perm [intro]:
  assumes "distinct (map fst xs)" and "mset xs = mset ys"
  shows "bind_all m xs = bind_all m ys"
proof -
  have "distinct (map fst (rev xs))" using assms(1) by (simp add: rev_map [symmetric])
  moreover have "mset (rev xs) = mset (rev ys)" using assms(2) by simp
  ultimately have "map_of (rev xs) = map_of (rev ys)"
    by (rule map_of_perm_distinct)
  then show ?thesis by (simp add: bind_all_map_add)
qed

lemma bind_all_lookup_distinct:
  assumes "distinct (map fst kvs)" and "(k, v) \<in> set kvs"
  shows "bind_all m kvs k = Some v"
proof -
  have "distinct (map fst (rev kvs))" using assms(1) by (simp add: rev_map [symmetric])
  moreover have "(k, v) \<in> set (rev kvs)" using assms(2) by simp
  ultimately have "map_of (rev kvs) k = Some v" by (rule map_of_is_SomeI)
  then show ?thesis by (simp add: bind_all_map_add)
qed

lemma bind_all_lookup_other:
  assumes "k \<notin> fst ` set kvs"
  shows "bind_all m kvs k = m k"
proof -
  have "map_of (rev kvs) k = None" using assms by (simp add: map_of_eq_None_iff)
  then show ?thesis by (simp add: bind_all_map_add map_add_def)
qed

lemma dom_bind_all [simp]: "dom (bind_all m kvs) = dom m \<union> fst ` set kvs"
  by (auto simp: bind_all_map_add dom_map_of_conv_image_fst)

end
