(* ===== verification/Py_Module.thy ===== *)
theory Py_Module
  imports Config_Prelude
begin

text \<open>
  The fragment of Python's module semantics that \<open>src/resources/web/config.py\<close> relies
  on.  The module body is a sequence of top-level assignments \<open>NAME = literal\<close>.  Each
  literal is a \<open>str\<close> or an \<open>int\<close>.  Running the body stores the bindings, in order,
  into the module's namespace, which starts with the interpreter's own \<open>__name__\<close>
  entry.  A read of a module attribute (\<open>config.NAME\<close>) is a lookup that raises
  \<open>AttributeError\<close> when the name is missing.  Errors are the \<open>Inl\<close> branch of a
  sum, as the exceptions would be; \<open>ImportError\<close> is what \<open>from m import x\<close> raises
  for a name the module lacks.
\<close>

datatype pyval = PyStr string | PyInt int

datatype stmt = Assign ident pyval

datatype py_error =
    AttributeError ident | TypeError ident | NameError ident | ModuleNotFoundError ident
  | ImportError ident

type_synonym namespace = "pyval ns"

fun target :: "stmt \<Rightarrow> ident" where
  "target (Assign x v) = x"

fun binding :: "stmt \<Rightarrow> ident \<times> pyval" where
  "binding (Assign x v) = (x, v)"

fun exec_stmt :: "namespace \<Rightarrow> stmt \<Rightarrow> namespace" where
  "exec_stmt g (Assign x v) = g(x \<mapsto> v)"

definition exec_body :: "stmt list \<Rightarrow> namespace \<Rightarrow> namespace" where
  "exec_body b g = foldl exec_stmt g b"

text \<open>
  A fresh module object: the import machinery sets \<open>__name__\<close> before the body runs.
  CPython also sets \<open>__doc__\<close>, \<open>__file__\<close>, \<open>__cached__\<close>, \<open>__package__\<close>,
  \<open>__loader__\<close> and \<open>__spec__\<close>, and running the body adds \<open>__builtins__\<close>.  Their values
  are interpreter objects and paths outside the program, and none is modelled.  All of
  them are private (underscore) names, and no property here is about a private name
  other than \<open>__name__\<close>.
\<close>

definition module_init :: "ident \<Rightarrow> namespace" where
  "module_init m = [''__name__'' \<mapsto> PyStr m]"

definition module_getattr :: "namespace \<Rightarrow> ident \<Rightarrow> py_error + pyval" where
  "module_getattr g x = (case g x of None \<Rightarrow> Inl (AttributeError x) | Some v \<Rightarrow> Inr v)"

subsection \<open>Running a body\<close>

lemma exec_body_bind_all [ns_simps]: "exec_body b g = bind_all g (map binding b)"
proof (induction b arbitrary: g)
  case Nil
  then show ?case by (simp add: exec_body_def)
next
  case (Cons s b)
  then show ?case by (cases s) (simp add: exec_body_def fun_upd_def)
qed

lemma exec_body_Nil [simp]: "exec_body [] g = g"
  and exec_body_Cons [simp]: "exec_body (s # b) g = exec_body b (exec_stmt g s)"
  by (simp_all add: exec_body_def)

lemma exec_body_append: "exec_body (b1 @ b2) g = exec_body b2 (exec_body b1 g)"
  by (simp add: exec_body_def)

lemma fst_binding [simp]: "fst (binding s) = target s"
  by (cases s) simp

lemma fst_comp_binding [simp]: "fst \<circ> binding = target"
  by (rule ext) simp

lemma binding_in_set: "Assign x v \<in> set b \<Longrightarrow> (x, v) \<in> set (map binding b)"
  by force

lemma target_image: "fst ` set (map binding b) = target ` set b"
  by (simp add: image_image)

text \<open>
  A body whose statements assign distinct names binds each name to the literal of its
  one assignment, leaves every other name as it was, and can be run in any order.
\<close>

lemma exec_body_lookup:
  assumes "distinct (map target b)" and "Assign x v \<in> set b"
  shows "exec_body b g x = Some v"
proof -
  have "distinct (map fst (map binding b))" using assms(1) by simp
  from bind_all_lookup_distinct [OF this binding_in_set [OF assms(2)]]
  show ?thesis by (simp add: exec_body_bind_all)
qed

lemma exec_body_other:
  assumes "x \<notin> target ` set b"
  shows "exec_body b g x = g x"
proof -
  have "x \<notin> fst ` set (map binding b)" using assms by (simp add: image_image)
  from bind_all_lookup_other [OF this] show ?thesis by (simp add: exec_body_bind_all)
qed

lemma exec_body_perm:
  assumes "distinct (map target b)" and "mset b = mset b'"
  shows "exec_body b g = exec_body b' g"
proof -
  from assms(2) have "mset (map binding b) = mset (map binding b')"
    by (simp add: mset_map)
  moreover have "distinct (map fst (map binding b))" using assms(1) by simp
  ultimately show ?thesis
    by (simp only: exec_body_bind_all bind_all_perm)
qed

lemma dom_exec_body [simp]: "dom (exec_body b g) = dom g \<union> target ` set b"
  by (simp add: exec_body_bind_all image_image)

text \<open>
  Running a body again over any namespace gives every name it assigns the same value
  as the first run did: the namespace before the run only shows through at names the
  body does not assign.
\<close>

lemma exec_body_assigned_indep:
  assumes "x \<in> target ` set b"
  shows "exec_body b g x = exec_body b g' x"
proof -
  have "x \<in> dom (map_of (rev (map binding b)))"
    using assms by (simp add: dom_map_of_conv_image_fst image_image)
  then show ?thesis
    by (auto simp: exec_body_bind_all bind_all_map_add map_add_def split: option.splits)
qed

lemma exec_body_idem: "exec_body b (exec_body b g) = exec_body b g"
proof (rule ext)
  fix x
  show "exec_body b (exec_body b g) x = exec_body b g x"
  proof (cases "x \<in> target ` set b")
    case True
    then show ?thesis by (rule exec_body_assigned_indep)
  next
    case False
    then show ?thesis by (simp add: exec_body_other)
  qed
qed

subsection \<open>Reading attributes\<close>

lemma module_getattr_Some [simp]: "g x = Some v \<Longrightarrow> module_getattr g x = Inr v"
  and module_getattr_None [simp]: "g x = None \<Longrightarrow> module_getattr g x = Inl (AttributeError x)"
  by (simp_all add: module_getattr_def)

end
