(* ===== verification/Config_Module.thy ===== *)
theory Config_Module
  imports Py_Module
begin

text \<open>
  The configuration module \<open>src/resources/web/config.py\<close>.  Each of its eleven
  top-level constants is a HOL constant of the same name, holding the source's literal.
  Ten are \<open>str\<close> values (HOL \<open>string\<close>) and \<open>FLASK_PORT\<close> is an \<open>int\<close>.  The
  module body \<open>config_body\<close> lists the eleven assignments in source order.  Loading the
  module runs that body in a fresh module namespace (\<open>config_namespace\<close>).
\<close>

subsection \<open>The constants, line by line\<close>

definition KAFKA_BOOTSTRAP_SERVERS :: string where
  "KAFKA_BOOTSTRAP_SERVERS = ''kafka:9092''"

definition KAFKA_REQUEST_TOPIC :: string where
  "KAFKA_REQUEST_TOPIC = ''flight-delay-ml-request''"

definition KAFKA_RESPONSE_TOPIC :: string where
  "KAFKA_RESPONSE_TOPIC = ''flight-predictions-output''"

definition ELASTIC_URL :: string where
  "ELASTIC_URL = ''http://localhost:9200/agile_data_science''"

definition MONGO_URI :: string where
  "MONGO_URI = ''mongodb://mongo:27017/''"

definition MONGO_DB_NAME :: string where
  "MONGO_DB_NAME = ''flight_prediction''"

definition MONGO_COLLECTION_RESULTS :: string where
  "MONGO_COLLECTION_RESULTS = ''flight_delay_results''"

definition MONGO_COLLECTION_DISTANCES :: string where
  "MONGO_COLLECTION_DISTANCES = ''distances''"

definition SPARK_MASTER_UI_URL :: string where
  "SPARK_MASTER_UI_URL = ''http://spark-master:8080''"

definition FLASK_HOST :: string where
  "FLASK_HOST = ''0.0.0.0''"

definition FLASK_PORT :: int where
  "FLASK_PORT = 5001"

declare KAFKA_BOOTSTRAP_SERVERS_def [config_defs] KAFKA_REQUEST_TOPIC_def [config_defs]
  KAFKA_RESPONSE_TOPIC_def [config_defs] ELASTIC_URL_def [config_defs] MONGO_URI_def [config_defs]
  MONGO_DB_NAME_def [config_defs] MONGO_COLLECTION_RESULTS_def [config_defs]
  MONGO_COLLECTION_DISTANCES_def [config_defs] SPARK_MASTER_UI_URL_def [config_defs]
  FLASK_HOST_def [config_defs] FLASK_PORT_def [config_defs]

subsection \<open>The module body and its load\<close>

definition config_body :: "stmt list" where
  "config_body =
     [Assign ''KAFKA_BOOTSTRAP_SERVERS'' (PyStr KAFKA_BOOTSTRAP_SERVERS),
      Assign ''KAFKA_REQUEST_TOPIC'' (PyStr KAFKA_REQUEST_TOPIC),
      Assign ''KAFKA_RESPONSE_TOPIC'' (PyStr KAFKA_RESPONSE_TOPIC),
      Assign ''ELASTIC_URL'' (PyStr ELASTIC_URL),
      Assign ''MONGO_URI'' (PyStr MONGO_URI),
      Assign ''MONGO_DB_NAME'' (PyStr MONGO_DB_NAME),
      Assign ''MONGO_COLLECTION_RESULTS'' (PyStr MONGO_COLLECTION_RESULTS),
      Assign ''MONGO_COLLECTION_DISTANCES'' (PyStr MONGO_COLLECTION_DISTANCES),
      Assign ''SPARK_MASTER_UI_URL'' (PyStr SPARK_MASTER_UI_URL),
      Assign ''FLASK_HOST'' (PyStr FLASK_HOST),
      Assign ''FLASK_PORT'' (PyInt FLASK_PORT)]"

definition config_names :: "ident list" where
  "config_names = map target config_body"

definition config_namespace :: "ident \<Rightarrow> namespace" where
  "config_namespace m = exec_body config_body (module_init m)"

subsection \<open>Facts about the body\<close>

lemma config_names_eq:
  "config_names =
     [''KAFKA_BOOTSTRAP_SERVERS'', ''KAFKA_REQUEST_TOPIC'', ''KAFKA_RESPONSE_TOPIC'',
      ''ELASTIC_URL'', ''MONGO_URI'', ''MONGO_DB_NAME'', ''MONGO_COLLECTION_RESULTS'',
      ''MONGO_COLLECTION_DISTANCES'', ''SPARK_MASTER_UI_URL'', ''FLASK_HOST'', ''FLASK_PORT'']"
  by (simp add: config_names_def config_body_def)

lemma config_body_distinct [simp]: "distinct (map target config_body)"
  by (simp add: config_names_eq [unfolded config_names_def])

lemma config_target_set: "target ` set config_body = set config_names"
  by (simp add: config_names_def)

lemma config_namespace_assign [ns_simps]:
  "Assign x v \<in> set config_body \<Longrightarrow> config_namespace m x = Some v"
  by (simp add: config_namespace_def exec_body_lookup)

lemma config_namespace_lookup [ns_simps]:
  "config_namespace m x =
     (if x \<in> set config_names then map_of (map binding config_body) x
      else if x = ''__name__'' then Some (PyStr m) else None)"
  by (simp add: config_namespace_def exec_body_bind_all bind_all_map_add module_init_def
      map_add_def config_names_eq config_body_def)

lemma dom_config_namespace: "dom (config_namespace m) = insert ''__name__'' (set config_names)"
  by (simp add: config_namespace_def config_target_set module_init_def)

subsection \<open>Properties of the loaded module\<close>

text \<open>
  C1. After the module is loaded, each of its eleven settings is bound to the literal the
  spec's data-model table lists: the broker address is \<open>kafka:9092\<close>, the two topics,
  the search URL, the store URI, database and collections, the Spark UI URL, the bind
  host, and the port \<open>5001\<close> as an integer.
\<close>

theorem config_namespace_values:
  "config_namespace m ''KAFKA_BOOTSTRAP_SERVERS'' = Some (PyStr ''kafka:9092'') \<and>
   config_namespace m ''KAFKA_REQUEST_TOPIC'' = Some (PyStr ''flight-delay-ml-request'') \<and>
   config_namespace m ''KAFKA_RESPONSE_TOPIC'' = Some (PyStr ''flight-predictions-output'') \<and>
   config_namespace m ''ELASTIC_URL'' = Some (PyStr ''http://localhost:9200/agile_data_science'') \<and>
   config_namespace m ''MONGO_URI'' = Some (PyStr ''mongodb://mongo:27017/'') \<and>
   config_namespace m ''MONGO_DB_NAME'' = Some (PyStr ''flight_prediction'') \<and>
   config_namespace m ''MONGO_COLLECTION_RESULTS'' = Some (PyStr ''flight_delay_results'') \<and>
   config_namespace m ''MONGO_COLLECTION_DISTANCES'' = Some (PyStr ''distances'') \<and>
   config_namespace m ''SPARK_MASTER_UI_URL'' = Some (PyStr ''http://spark-master:8080'') \<and>
   config_namespace m ''FLASK_HOST'' = Some (PyStr ''0.0.0.0'') \<and>
   config_namespace m ''FLASK_PORT'' = Some (PyInt 5001)"
  by (simp add: config_namespace_assign config_body_def config_defs)

text \<open>
  C2. The settings are independent of one another: the module's assignments bind
  distinct names, so running them in any order (any permutation of the body) leaves
  the same namespace.
\<close>

theorem config_body_order_independent:
  "mset b = mset config_body \<Longrightarrow> exec_body b g = exec_body config_body g"
  by (metis config_body_distinct exec_body_perm)

theorem config_body_order_independent_witness:
  "mset (rev config_body) = mset config_body \<and>
   exec_body (rev config_body) (module_init ''config'') =
   exec_body config_body (module_init ''config'')"
  using config_body_order_independent [of "rev config_body" "module_init ''config''"] by simp

end
