(* ===== verification/Py_Import.thy ===== *)
theory Py_Import
  imports Config_Module
begin

text \<open>
  The interpreter's import system, through which every consumer reaches the
  configuration module, modelled as a state machine.  The state \<open>interp\<close> holds
  \<open>sys.modules\<close> (module name to the address of its module object), a heap of module
  namespaces (each object's \<open>__dict__\<close>), and the next free address.  A \<open>program\<close>
  says which module sources the interpreter can find.  Clients issue four operations:
  \<^item> \<open>Import m\<close>: return the cached module if \<open>m\<close> is in \<open>sys.modules\<close>; otherwise
    create a fresh module object, run its body in it and record it in \<open>sys.modules\<close>;
  \<^item> \<open>GetAttr m x\<close>: read attribute \<open>x\<close> of the imported module \<open>m\<close>;
  \<^item> \<open>SetAttr m x v\<close>: rebind attribute \<open>x\<close> of module \<open>m\<close>, which Python allows any
    client to do on any module;
  \<^item> \<open>DelAttr m x\<close>: \<open>del m.x\<close>, which removes the binding and raises
    \<open>AttributeError\<close> when there is none;
  \<^item> \<open>Reload m\<close>: \<open>importlib.reload\<close>, which runs the body again in the same module
    object.
  Any interleaving of clients' operations is a sequence of steps, so the reachable
  states are given by an inductive relation over the operations a client may use.

  Two simplifications bound what the model says.  A \<open>program\<close> lists the modules whose
  source the model knows, and \<open>config_program\<close> holds only this repository's module.
  An import of any other module (the standard library, installed packages) is outside
  the model: it comes out as \<open>ModuleNotFoundError\<close>, and no property is about it.
  \<open>Reload m\<close> finds the module under the name \<open>m\<close> it is reloaded by.  CPython reads
  \<open>m.__spec__.name\<close> or \<open>m.__name__\<close> instead and resets the module's private
  attributes.  The two agree until a client assigns or deletes those attributes, which
  none of the properties below allows.
\<close>

type_synonym addr = nat
type_synonym program = "ident \<rightharpoonup> stmt list"

record interp =
  sys_modules :: "ident \<rightharpoonup> addr"
  heap :: "addr \<rightharpoonup> namespace"
  next_addr :: addr

datatype op =
    Import ident | GetAttr ident ident | SetAttr ident ident pyval | DelAttr ident ident
  | Reload ident

datatype result = RModule addr | RValue pyval | RUnit

text \<open>The program of this repository: the module \<open>config\<close> with the body of \<open>config.py\<close>.\<close>

definition config_program :: program where
  "config_program = [''config'' \<mapsto> config_body]"

definition interp0 :: interp where
  "interp0 = \<lparr>sys_modules = Map.empty, heap = Map.empty, next_addr = 0\<rparr>"

definition import_module :: "program \<Rightarrow> ident \<Rightarrow> interp \<Rightarrow> py_error + (addr \<times> interp)" where
  "import_module p m s =
     (case sys_modules s m of
        Some a \<Rightarrow> Inr (a, s)
      | None \<Rightarrow>
          (case p m of
             None \<Rightarrow> Inl (ModuleNotFoundError m)
           | Some b \<Rightarrow>
               (let a = next_addr s
                in Inr (a, s\<lparr>sys_modules := (sys_modules s)(m \<mapsto> a),
                             heap := (heap s)(a \<mapsto> exec_body b (module_init m)),
                             next_addr := Suc a\<rparr>))))"

text \<open>The module object a client refers to after importing \<open>m\<close>; before, the name is unbound.\<close>

definition loaded :: "interp \<Rightarrow> ident \<Rightarrow> py_error + (addr \<times> namespace)" where
  "loaded s m =
     (case sys_modules s m of
        None \<Rightarrow> Inl (NameError m)
      | Some a \<Rightarrow> (case heap s a of None \<Rightarrow> Inl (NameError m) | Some g \<Rightarrow> Inr (a, g)))"

fun interp_step :: "program \<Rightarrow> op \<Rightarrow> interp \<Rightarrow> (py_error + result) \<times> interp" where
  "interp_step p (Import m) s =
     (case import_module p m s of
        Inl e \<Rightarrow> (Inl e, s)
      | Inr (a, s') \<Rightarrow> (Inr (RModule a), s'))"
| "interp_step p (GetAttr m x) s =
     (case loaded s m of
        Inl e \<Rightarrow> (Inl e, s)
      | Inr (a, g) \<Rightarrow> (case module_getattr g x of Inl e \<Rightarrow> Inl e | Inr v \<Rightarrow> Inr (RValue v), s))"
| "interp_step p (SetAttr m x v) s =
     (case loaded s m of
        Inl e \<Rightarrow> (Inl e, s)
      | Inr (a, g) \<Rightarrow> (Inr RUnit, s\<lparr>heap := (heap s)(a \<mapsto> g(x \<mapsto> v))\<rparr>))"
| "interp_step p (DelAttr m x) s =
     (case loaded s m of
        Inl e \<Rightarrow> (Inl e, s)
      | Inr (a, g) \<Rightarrow>
          (case g x of
             None \<Rightarrow> (Inl (AttributeError x), s)
           | Some _ \<Rightarrow> (Inr RUnit, s\<lparr>heap := (heap s)(a \<mapsto> g(x := None))\<rparr>)))"
| "interp_step p (Reload m) s =
     (case loaded s m of
        Inl e \<Rightarrow> (Inl e, s)
      | Inr (a, g) \<Rightarrow>
          (case p m of
             None \<Rightarrow> (Inl (ModuleNotFoundError m), s)
           | Some b \<Rightarrow> (Inr (RModule a), s\<lparr>heap := (heap s)(a \<mapsto> exec_body b g)\<rparr>)))"

fun run :: "program \<Rightarrow> op list \<Rightarrow> interp \<Rightarrow> (py_error + result) list \<times> interp" where
  "run p [] s = ([], s)"
| "run p (o1 # os) s =
     (let (r, s') = interp_step p o1 s; (rs, s'') = run p os s' in (r # rs, s''))"

fun mutates :: "op \<Rightarrow> bool" where
  "mutates (SetAttr m x v) = True"
| "mutates (DelAttr m x) = True"
| "mutates _ = False"

inductive reachable :: "program \<Rightarrow> (op \<Rightarrow> bool) \<Rightarrow> interp \<Rightarrow> bool"
  for p :: program and allowed :: "op \<Rightarrow> bool" where
  start: "reachable p allowed interp0"
| step: "reachable p allowed s \<Longrightarrow> allowed o1 \<Longrightarrow> reachable p allowed (snd (interp_step p o1 s))"

text \<open>
  Invariants.  \<open>wf_interp\<close>: every module in \<open>sys.modules\<close> has a source, an address
  below the next free one, and an object on the heap.  \<open>pristine\<close>: moreover each
  module's object holds exactly the namespace its body produced at import.
\<close>

definition wf_interp :: "program \<Rightarrow> interp \<Rightarrow> bool" where
  "wf_interp p s \<longleftrightarrow>
     (\<forall>m a. sys_modules s m = Some a \<longrightarrow> a < next_addr s \<and> heap s a \<noteq> None \<and> p m \<noteq> None)"

definition pristine :: "program \<Rightarrow> interp \<Rightarrow> bool" where
  "pristine p s \<longleftrightarrow>
     (\<forall>m a. sys_modules s m = Some a \<longrightarrow>
        a < next_addr s \<and> (\<exists>b. p m = Some b \<and> heap s a = Some (exec_body b (module_init m))))"

text \<open>
  A result agrees with a fresh load when, for a read of the \<open>config\<close> module, it is
  what the freshly loaded namespace gives.  Results of other operations are not
  constrained.
\<close>

fun read_ok :: "op \<Rightarrow> py_error + result \<Rightarrow> bool" where
  "read_ok (GetAttr m x) r =
     (m = ''config'' \<longrightarrow>
        r = (case config_namespace ''config'' x of
               None \<Rightarrow> Inl (AttributeError x)
             | Some v \<Rightarrow> Inr (RValue v)))"
| "read_ok _ r = True"

subsection \<open>Steps and invariants\<close>

lemmas interp_simps = import_module_def loaded_def interp0_def

lemma loaded_Inr: "loaded s m = Inr (a, g) \<longleftrightarrow> sys_modules s m = Some a \<and> heap s a = Some g"
  by (auto simp: loaded_def split: option.splits)

lemma getattr_no_effect: "snd (interp_step p (GetAttr m x) s) = s"
  by (simp split: sum.splits prod.splits)

lemma import_cached: "sys_modules s m = Some a \<Longrightarrow> import_module p m s = Inr (a, s)"
  by (simp add: import_module_def)

lemma import_module_Inr_cases:
  assumes "import_module p m s = Inr (a, s')"
  obtains (cached) "sys_modules s m = Some a" and "s' = s"
    | (fresh) b where "sys_modules s m = None" and "p m = Some b" and "a = next_addr s"
        and "s' = s\<lparr>sys_modules := (sys_modules s)(m \<mapsto> a),
                   heap := (heap s)(a \<mapsto> exec_body b (module_init m)), next_addr := Suc a\<rparr>"
  using assms by (auto simp: import_module_def Let_def split: option.splits)

lemma import_module_caches:
  "import_module p m s = Inr (a, s') \<Longrightarrow> sys_modules s' m = Some a"
  by (erule import_module_Inr_cases) simp_all

lemma fst_run_Cons:
  "fst (run p (o1 # os) s) = fst (interp_step p o1 s) # fst (run p os (snd (interp_step p o1 s)))"
  by (cases "interp_step p o1 s", cases "run p os (snd (interp_step p o1 s))") simp

lemma sys_modules_step_mono:
  "sys_modules s m = Some a \<Longrightarrow> sys_modules (snd (interp_step p o1 s)) m = Some a"
  by (cases o1) (auto simp: import_module_def loaded_def Let_def split: option.splits sum.splits)

lemma wf_interp0: "wf_interp p interp0"
  and pristine_interp0: "pristine p interp0"
  by (simp_all add: wf_interp_def pristine_def interp0_def)

lemma pristine_wf: "pristine p s \<Longrightarrow> wf_interp p s"
  by (fastforce simp: pristine_def wf_interp_def)

lemma wf_interp_step:
  assumes "wf_interp p s"
  shows "wf_interp p (snd (interp_step p o1 s))"
proof (cases o1)
  case (Import m)
  show ?thesis
  proof (cases "import_module p m s")
    case (Inr r)
    obtain a s' where r: "r = (a, s')" by fastforce
    from Inr[unfolded r] show ?thesis
    proof (cases rule: import_module_Inr_cases)
      case fresh
      have "\<forall>m' a'. sys_modules s m' = Some a' \<longrightarrow> a' < next_addr s \<and> heap s a' \<noteq> None \<and> p m' \<noteq> None"
        using assms by (simp add: wf_interp_def)
      with fresh Import Inr r show ?thesis
        unfolding wf_interp_def by (simp, metis less_SucI less_irrefl option.distinct(1))
    qed (use assms Import Inr r in simp)
  qed (use assms Import in simp)
next
  case (SetAttr m x v)
  with assms show ?thesis
    by (auto simp: wf_interp_def loaded_def split: option.splits)
next
  case (DelAttr m x)
  with assms show ?thesis
    by (auto simp: wf_interp_def loaded_def split: option.splits)
next
  case (Reload m)
  with assms show ?thesis
    by (auto simp: wf_interp_def loaded_def split: option.splits)
next
  case (GetAttr m x)
  with assms show ?thesis by (simp only: getattr_no_effect)
qed

text \<open>In a state where every module still holds its import-time namespace, a reload changes nothing.\<close>

lemma reload_pristine_noop:
  assumes "pristine p s"
  shows "snd (interp_step p (Reload m) s) = s"
proof (cases "loaded s m")
  case (Inr r)
  obtain a g where r: "r = (a, g)" by fastforce
  with Inr have a: "sys_modules s m = Some a" and g: "heap s a = Some g"
    by (simp_all add: loaded_Inr)
  from assms a have "\<exists>b. p m = Some b \<and> heap s a = Some (exec_body b (module_init m))"
    by (simp add: pristine_def)
  with g obtain b where b: "p m = Some b" and gb: "g = exec_body b (module_init m)"
    by auto
  then have "exec_body b g = g" by (simp add: exec_body_idem)
  with Inr r b g show ?thesis by (simp add: map_upd_triv)
qed simp

lemma pristine_step:
  assumes "pristine p s" and "\<not> mutates o1"
  shows "pristine p (snd (interp_step p o1 s))"
proof (cases o1)
  case (Import m)
  show ?thesis
  proof (cases "import_module p m s")
    case (Inr r)
    obtain a s' where r: "r = (a, s')" by fastforce
    from Inr[unfolded r] show ?thesis
    proof (cases rule: import_module_Inr_cases)
      case fresh
      have "\<forall>m' a'. sys_modules s m' = Some a' \<longrightarrow> a' < next_addr s \<and>
              (\<exists>b. p m' = Some b \<and> heap s a' = Some (exec_body b (module_init m')))"
        using assms(1) by (simp add: pristine_def)
      with fresh Import Inr r show ?thesis
        unfolding pristine_def by (simp, metis less_SucI less_irrefl)
    qed (use assms Import Inr r in simp)
  qed (use assms Import in simp)
next
  case (Reload m)
  have "snd (interp_step p (Reload m) s) = s" by (rule reload_pristine_noop [OF assms(1)])
  with Reload assms(1) show ?thesis by (simp only:)
next
  case (GetAttr m x)
  then show ?thesis using assms(1) by (simp only: getattr_no_effect)
next
  case (SetAttr m x v)
  with assms(2) show ?thesis by simp
next
  case (DelAttr m x)
  with assms(2) show ?thesis by simp
qed

lemma reachable_wf: "reachable p allowed s \<Longrightarrow> wf_interp p s"
  by (induction rule: reachable.induct) (simp_all add: wf_interp0 wf_interp_step)

lemma reachable_pristine:
  "reachable p allowed s \<Longrightarrow> (\<And>o1. allowed o1 \<Longrightarrow> \<not> mutates o1) \<Longrightarrow> pristine p s"
  by (induction rule: reachable.induct) (simp_all add: pristine_interp0 pristine_step)

lemma reachable_run:
  "reachable p allowed s \<Longrightarrow> list_all allowed os \<Longrightarrow> reachable p allowed (snd (run p os s))"
proof (induction os arbitrary: s)
  case (Cons o1 os)
  obtain r s' where st: "interp_step p o1 s = (r, s')" by fastforce
  obtain rs s'' where rn: "run p os s' = (rs, s'')" by fastforce
  from Cons.prems st have "reachable p allowed s'"
    using reachable.step [of p allowed s o1] by simp
  with Cons.IH [of s'] Cons.prems(2) rn have "reachable p allowed s''"
    by simp
  then show ?case by (simp add: st rn)
qed simp

subsection \<open>The configuration program\<close>

lemma config_program_config [simp]: "config_program ''config'' = Some config_body"
  by (simp add: config_program_def)

lemma import_config_Inr: "\<exists>a s'. import_module config_program ''config'' s = Inr (a, s')"
  by (auto simp: import_module_def Let_def split: option.splits)

lemma pristine_config:
  assumes "pristine config_program s" and "sys_modules s ''config'' = Some a"
  shows "heap s a = Some (config_namespace ''config'')"
proof -
  from assms have "\<exists>b. config_program ''config'' = Some b \<and>
      heap s a = Some (exec_body b (module_init ''config''))"
    unfolding pristine_def by blast
  then show ?thesis by (auto simp: config_namespace_def)
qed

lemma reachable_import_config:
  "allowed (Import ''config'') \<Longrightarrow>
   reachable config_program allowed (snd (interp_step config_program (Import ''config'') interp0))"
  by (rule reachable.step [OF reachable.start])

lemma import_config_interp0:
  "sys_modules (snd (interp_step config_program (Import ''config'') interp0)) ''config'' = Some 0"
  by (simp add: import_module_def interp0_def)

lemma config_namespace_defined: "x \<in> set config_names \<Longrightarrow> \<exists>v. config_namespace ''config'' x = Some v"
  using dom_config_namespace [of "''config''"] by auto

lemma config_after_import:
  assumes r: "reachable config_program (\<lambda>o1. \<not> mutates o1) s"
    and h: "import_module config_program ''config'' s = Inr (a, s')"
  shows "sys_modules s' ''config'' = Some a \<and> heap s' a = Some (config_namespace ''config'')"
proof -
  have "reachable config_program (\<lambda>o1. \<not> mutates o1) s'"
    using reachable.step [OF r, of "Import ''config''"] h by simp
  then have "pristine config_program s'" by (rule reachable_pristine) simp
  with import_module_caches [OF h] show ?thesis by (simp add: pristine_config)
qed

subsection \<open>Properties of the import system on the configuration module\<close>

text \<open>
  C3. Immutable after load, for clients that do not assign module attributes: in every
  state reached by any interleaving of imports, reads and reloads, the \<open>config\<close> module
  object holds exactly the namespace its body produced at import.
\<close>

theorem settings_immutable_without_setattr:
  "reachable config_program (\<lambda>o1. \<not> mutates o1) s \<Longrightarrow> sys_modules s ''config'' = Some a \<Longrightarrow>
   heap s a = Some (config_namespace ''config'')"
  by (metis pristine_config reachable_pristine)

theorem settings_immutable_without_setattr_witness:
  "reachable config_program (\<lambda>o1. \<not> mutates o1)
     (snd (interp_step config_program (Import ''config'') interp0)) \<and>
   sys_modules (snd (interp_step config_program (Import ''config'') interp0)) ''config'' = Some 0 \<and>
   heap (snd (interp_step config_program (Import ''config'') interp0)) 0 =
     Some (config_namespace ''config'')"
proof -
  have r: "reachable config_program (\<lambda>o1. \<not> mutates o1)
      (snd (interp_step config_program (Import ''config'') interp0))"
    by (rule reachable_import_config) simp
  show ?thesis
    using r import_config_interp0 settings_immutable_without_setattr [OF r import_config_interp0]
    by simp
qed

end
