(* ===== verification/Concurrent_Readers.thy ===== *)
theory Concurrent_Readers
  imports Py_Import
begin

text \<open>
  Concurrent readers, as the spec's concurrency section describes them: several
  threads import the configuration module and read it without any coordination.
  Under the interpreter lock each client operation is atomic, so a concurrent run is
  an interleaving of the threads' operation lists, executed by \<open>run\<close> on the shared
  interpreter state.  A thread can name \<open>config\<close> only after its own
  \<open>import config\<close> has bound the name, which \<open>guarded\<close> expresses.  \<open>interleave\<close>
  is the inductive set of merges of two lists that keep each list's order.
\<close>

inductive interleave :: "'a list \<Rightarrow> 'a list \<Rightarrow> 'a list \<Rightarrow> bool" where
  Nil: "interleave [] [] []"
| left: "interleave xs ys zs \<Longrightarrow> interleave (x # xs) ys (x # zs)"
| right: "interleave xs ys zs \<Longrightarrow> interleave xs (y # ys) (y # zs)"

definition guard_ok :: "bool \<Rightarrow> op \<Rightarrow> bool" where
  "guard_ok b o1 =
     (case o1 of
        Import m \<Rightarrow> True
      | GetAttr m x \<Rightarrow> (m = ''config'' \<longrightarrow> b)
      | SetAttr m x v \<Rightarrow> (m = ''config'' \<longrightarrow> b)
      | DelAttr m x \<Rightarrow> (m = ''config'' \<longrightarrow> b)
      | Reload m \<Rightarrow> (m = ''config'' \<longrightarrow> b))"

definition flag_after :: "bool \<Rightarrow> op \<Rightarrow> bool" where
  "flag_after b o1 = (case o1 of Import m \<Rightarrow> b \<or> m = ''config'' | _ \<Rightarrow> b)"

fun guarded :: "bool \<Rightarrow> op list \<Rightarrow> bool" where
  "guarded b [] = True"
| "guarded b (o1 # os) = (guard_ok b o1 \<and> guarded (flag_after b o1) os)"

subsection \<open>Interleavings keep each thread's guard\<close>

lemma interleave_set: "interleave xs ys zs \<Longrightarrow> set zs = set xs \<union> set ys"
  by (induction rule: interleave.induct) auto

lemma guard_ok_mono: "guard_ok b o1 \<Longrightarrow> guard_ok (b \<or> c) o1"
  and guard_ok_mono': "guard_ok c o1 \<Longrightarrow> guard_ok (b \<or> c) o1"
  by (simp_all add: guard_ok_def split: op.splits)

lemma flag_after_disj: "flag_after (b \<or> c) o1 = (flag_after b o1 \<or> c)"
  and flag_after_disj': "flag_after (b \<or> c) o1 = (b \<or> flag_after c o1)"
  by (auto simp: flag_after_def split: op.splits)

lemma interleave_guarded:
  "interleave xs ys zs \<Longrightarrow> guarded b1 xs \<Longrightarrow> guarded b2 ys \<Longrightarrow> guarded (b1 \<or> b2) zs"
proof (induction arbitrary: b1 b2 rule: interleave.induct)
  case Nil
  then show ?case by simp
next
  case (left xs ys zs x)
  then have "guarded (flag_after b1 x \<or> b2) zs" by simp
  with left.prems show ?case by (simp add: guard_ok_mono flag_after_disj)
next
  case (right xs ys zs y)
  then have "guarded (b1 \<or> flag_after b2 y) zs" by simp
  with right.prems show ?case by (simp add: guard_ok_mono' flag_after_disj')
qed

subsection \<open>Guarded read-only runs read the loaded values\<close>

lemma flag_after_loaded:
  assumes "flag_after b o1" and "b \<longrightarrow> sys_modules s ''config'' \<noteq> None"
  shows "sys_modules (snd (interp_step config_program o1 s)) ''config'' \<noteq> None"
proof (cases "o1 = Import ''config''")
  case True
  obtain a s' where h: "import_module config_program ''config'' s = Inr (a, s')"
    using import_config_Inr by blast
  with True show ?thesis using import_module_caches [OF h] by simp
next
  case False
  with assms have "sys_modules s ''config'' \<noteq> None"
    by (auto simp: flag_after_def split: op.splits)
  then show ?thesis using sys_modules_step_mono by fastforce
qed

lemma guarded_read_ok:
  assumes "pristine config_program s" and "b \<longrightarrow> sys_modules s ''config'' \<noteq> None"
    and "guard_ok b o1"
  shows "read_ok o1 (fst (interp_step config_program o1 s))"
proof (cases o1)
  case (GetAttr m x)
  show ?thesis
  proof (cases "m = ''config''")
    case True
    with assms(2,3) GetAttr obtain a where a: "sys_modules s ''config'' = Some a"
      by (auto simp: guard_ok_def)
    with assms(1) have "heap s a = Some (config_namespace ''config'')"
      by (rule pristine_config)
    with a GetAttr True show ?thesis
      by (auto simp: loaded_def module_getattr_def split: option.splits)
  qed (simp add: GetAttr)
qed simp_all

lemma run_guarded_reads_ok:
  "pristine config_program s \<Longrightarrow> (b \<longrightarrow> sys_modules s ''config'' \<noteq> None) \<Longrightarrow>
   guarded b os \<Longrightarrow> list_all (\<lambda>o1. \<not> mutates o1) os \<Longrightarrow>
   list_all2 read_ok os (fst (run config_program os s))"
proof (induction os arbitrary: s b)
  case (Cons o1 os)
  let ?s' = "snd (interp_step config_program o1 s)"
  have ok: "read_ok o1 (fst (interp_step config_program o1 s))"
    using Cons.prems by (simp add: guarded_read_ok)
  have "pristine config_program ?s'"
    using Cons.prems by (simp add: pristine_step)
  moreover have "flag_after b o1 \<longrightarrow> sys_modules ?s' ''config'' \<noteq> None"
    using Cons.prems(2) flag_after_loaded by blast
  ultimately have "list_all2 read_ok os (fst (run config_program os ?s'))"
    using Cons.IH Cons.prems(3,4) by simp
  with ok show ?case by (simp only: fst_run_Cons list_all2_Cons)
qed simp

subsection \<open>Concurrent readers\<close>

text \<open>
  C5. Concurrent readers agree: for two threads that each import \<open>config\<close> before
  naming it and never assign or delete its attributes, every interleaving of their
  operations gives each read of \<open>config\<close> the value of a fresh load.  No read sees a
  partly loaded module, and none depends on the schedule.
\<close>

theorem concurrent_readers_agree:
  "interleave xs ys zs \<Longrightarrow> guarded False xs \<Longrightarrow> guarded False ys \<Longrightarrow>
   list_all (\<lambda>o1. \<not> mutates o1) xs \<Longrightarrow> list_all (\<lambda>o1. \<not> mutates o1) ys \<Longrightarrow>
   list_all2 read_ok zs (fst (run config_program zs interp0))"
proof -
  assume i: "interleave xs ys zs" and gx: "guarded False xs" and gy: "guarded False ys"
    and mx: "list_all (\<lambda>o1. \<not> mutates o1) xs" and my: "list_all (\<lambda>o1. \<not> mutates o1) ys"
  from interleave_guarded [OF i gx gy] have g: "guarded False zs" by simp
  from interleave_set [OF i] mx my have m: "list_all (\<lambda>o1. \<not> mutates o1) zs"
    by (auto simp: list_all_iff)
  show ?thesis by (rule run_guarded_reads_ok [OF pristine_interp0 _ g m]) simp
qed

theorem concurrent_readers_agree_witness:
  "interleave
     [Import ''config'', GetAttr ''config'' ''FLASK_PORT'']
     [Import ''config'', GetAttr ''config'' ''KAFKA_BOOTSTRAP_SERVERS'']
     [Import ''config'', Import ''config'', GetAttr ''config'' ''KAFKA_BOOTSTRAP_SERVERS'',
      GetAttr ''config'' ''FLASK_PORT''] \<and>
   list_all2 read_ok
     [Import ''config'', Import ''config'', GetAttr ''config'' ''KAFKA_BOOTSTRAP_SERVERS'',
      GetAttr ''config'' ''FLASK_PORT'']
     (fst (run config_program
       [Import ''config'', Import ''config'', GetAttr ''config'' ''KAFKA_BOOTSTRAP_SERVERS'',
        GetAttr ''config'' ''FLASK_PORT''] interp0))"
proof -
  have i: "interleave
     [Import ''config'', GetAttr ''config'' ''FLASK_PORT'']
     [Import ''config'', GetAttr ''config'' ''KAFKA_BOOTSTRAP_SERVERS'']
     [Import ''config'', Import ''config'', GetAttr ''config'' ''KAFKA_BOOTSTRAP_SERVERS'',
      GetAttr ''config'' ''FLASK_PORT'']"
    by (intro interleave.left interleave.right interleave.Nil)
  have gx: "guarded False [Import ''config'', GetAttr ''config'' ''FLASK_PORT'']"
    and gy: "guarded False [Import ''config'', GetAttr ''config'' ''KAFKA_BOOTSTRAP_SERVERS'']"
    by (simp_all add: guard_ok_def flag_after_def)
  show ?thesis using i concurrent_readers_agree [OF i gx gy] by simp
qed

end
