(* ===== verification/Py_Clients.thy ===== *)
theory Py_Clients
  imports Py_Import
begin

text \<open>
  The consumers' side of the module: each client module (the web app, the streaming
  job, a script) has its own global namespace, and the statements it uses to reach the
  settings act on that namespace and on the shared interpreter state of \<open>Py_Import\<close>.
  \<^item> \<open>import m\<close> binds the name \<open>m\<close> to the module object;
  \<^item> \<open>from m import x\<close> imports \<open>m\<close>, then copies the current value of \<open>m.x\<close> into
    the client's own global \<open>x\<close>; a missing name raises \<open>ImportError\<close>, and the
    module stays imported;
  \<^item> \<open>from m import *\<close> copies every public name (not starting with \<open>_\<close>) of \<open>m\<close>,
    as Python does for a module without \<open>__all__\<close>, which \<open>config.py\<close> has not;
  \<^item> reading a global \<open>x\<close> raises \<open>NameError\<close> when the client has not bound it;
    \<open>m.x\<close> reads through the client's binding of \<open>m\<close>;
  \<^item> \<open>m.x = v\<close>, \<open>importlib.reload(m)\<close> and the client's own assignment \<open>x = v\<close>.
  The world is the interpreter state extended by the clients' namespaces.  A client
  operation refines a list of interpreter operations (\<open>core_ops\<close>): on the shared
  state it does exactly what they do.
\<close>

datatype obj = ObjModule addr | ObjVal pyval

record world = interp +
  globals :: "ident \<Rightarrow> obj ns"

datatype cop =
    CImport ident ident
  | CFromImport ident ident ident
  | CFromImportAll ident ident
  | CReadName ident ident
  | CReadAttr ident ident ident
  | CSetAttr ident ident ident pyval
  | CReload ident ident
  | CAssign ident ident pyval

text \<open>
  Every client module starts with its own \<open>__name__\<close>.  A real client module also has
  its own \<open>__file__\<close>, \<open>__builtins__\<close> and further private attributes, and the
  definitions of its own code; these are not modelled, and the properties below speak
  only of the names the client's import statements bind.
\<close>

definition world0 :: world where
  "world0 = \<lparr>sys_modules = Map.empty, heap = Map.empty, next_addr = 0,
             globals = (\<lambda>c. [''__name__'' \<mapsto> ObjVal (PyStr c)])\<rparr>"

definition with_interp :: "world \<Rightarrow> interp \<Rightarrow> world" where
  "with_interp w s = w\<lparr>sys_modules := sys_modules s, heap := heap s, next_addr := next_addr s\<rparr>"

definition bind_global :: "world \<Rightarrow> ident \<Rightarrow> ident \<Rightarrow> obj \<Rightarrow> world" where
  "bind_global w c x v = w\<lparr>globals := (globals w)(c := (globals w c)(x \<mapsto> v))\<rparr>"

definition public_name :: "ident \<Rightarrow> bool" where
  "public_name x = (case x of [] \<Rightarrow> True | ch # _ \<Rightarrow> ch \<noteq> CHR ''_'')"

definition public_part :: "namespace option \<Rightarrow> obj ns" where
  "public_part h = (\<lambda>y. if public_name y then Option.bind h (\<lambda>g. map_option ObjVal (g y)) else None)"

text \<open>
  The module object a client's name \<open>m\<close> refers to; \<open>e\<close> is the error for a name bound
  to a plain value (\<open>AttributeError\<close> for an attribute access, \<open>TypeError\<close> for
  \<open>reload\<close>).
\<close>

definition client_module :: "world \<Rightarrow> ident \<Rightarrow> ident \<Rightarrow> py_error \<Rightarrow> py_error + (addr \<times> namespace)" where
  "client_module w c m e =
     (case globals w c m of
        None \<Rightarrow> Inl (NameError m)
      | Some (ObjVal _) \<Rightarrow> Inl e
      | Some (ObjModule a) \<Rightarrow> (case heap w a of None \<Rightarrow> Inl e | Some g \<Rightarrow> Inr (a, g)))"

fun client_step :: "program \<Rightarrow> cop \<Rightarrow> world \<Rightarrow> (py_error + obj option) \<times> world" where
  "client_step p (CImport c m) w =
     (case import_module p m (interp.truncate w) of
        Inl e \<Rightarrow> (Inl e, w)
      | Inr (a, s') \<Rightarrow> (Inr None, bind_global (with_interp w s') c m (ObjModule a)))"
| "client_step p (CFromImport c m x) w =
     (case import_module p m (interp.truncate w) of
        Inl e \<Rightarrow> (Inl e, w)
      | Inr (a, s') \<Rightarrow>
          (case Option.bind (heap s' a) (\<lambda>g. g x) of
             None \<Rightarrow> (Inl (ImportError x), with_interp w s')
           | Some v \<Rightarrow> (Inr None, bind_global (with_interp w s') c x (ObjVal v))))"
| "client_step p (CFromImportAll c m) w =
     (case import_module p m (interp.truncate w) of
        Inl e \<Rightarrow> (Inl e, w)
      | Inr (a, s') \<Rightarrow>
          (Inr None, (with_interp w s')\<lparr>globals := (globals w)(c := globals w c ++ public_part (heap s' a))\<rparr>))"
| "client_step p (CReadName c x) w =
     (case globals w c x of None \<Rightarrow> (Inl (NameError x), w) | Some v \<Rightarrow> (Inr (Some v), w))"
| "client_step p (CReadAttr c m x) w =
     (case client_module w c m (AttributeError x) of
        Inl e \<Rightarrow> (Inl e, w)
      | Inr (a, g) \<Rightarrow>
          (case g x of None \<Rightarrow> (Inl (AttributeError x), w) | Some v \<Rightarrow> (Inr (Some (ObjVal v)), w)))"
| "client_step p (CSetAttr c m x v) w =
     (case client_module w c m (AttributeError x) of
        Inl e \<Rightarrow> (Inl e, w)
      | Inr (a, g) \<Rightarrow> (Inr None, w\<lparr>heap := (heap w)(a \<mapsto> g(x \<mapsto> v))\<rparr>))"
| "client_step p (CReload c m) w =
     (case client_module w c m (TypeError m) of
        Inl e \<Rightarrow> (Inl e, w)
      | Inr (a, g) \<Rightarrow>
          (if sys_modules w m \<noteq> Some a then (Inl (ImportError m), w)
           else (case p m of
                   None \<Rightarrow> (Inl (ModuleNotFoundError m), w)
                 | Some b \<Rightarrow> (Inr (Some (ObjModule a)), w\<lparr>heap := (heap w)(a \<mapsto> exec_body b g)\<rparr>))))"
| "client_step p (CAssign c x v) w = (Inr None, bind_global w c x (ObjVal v))"

fun crun :: "program \<Rightarrow> cop list \<Rightarrow> world \<Rightarrow> (py_error + obj option) list \<times> world" where
  "crun p [] w = ([], w)"
| "crun p (o1 # os) w =
     (let (r, w') = client_step p o1 w; (rs, w'') = crun p os w' in (r # rs, w''))"

text \<open>
  The interpreter operations a client operation performs on the shared state.  A
  client's write or reload through a name that is not bound to a module raises before
  it reaches any module.
\<close>

fun core_ops :: "world \<Rightarrow> cop \<Rightarrow> op list" where
  "core_ops w (CImport c m) = [Import m]"
| "core_ops w (CFromImport c m x) = [Import m]"
| "core_ops w (CFromImportAll c m) = [Import m]"
| "core_ops w (CReadName c x) = []"
| "core_ops w (CReadAttr c m x) = [GetAttr m x]"
| "core_ops w (CSetAttr c m x v) =
     (case globals w c m of Some (ObjModule a) \<Rightarrow> [SetAttr m x v] | _ \<Rightarrow> [])"
| "core_ops w (CReload c m) =
     (case globals w c m of Some (ObjModule a) \<Rightarrow> [Reload m] | _ \<Rightarrow> [])"
| "core_ops w (CAssign c x v) = []"

fun cwrites :: "cop \<Rightarrow> bool" where
  "cwrites (CSetAttr c m x v) = True"
| "cwrites (CAssign c x v) = True"
| "cwrites _ = False"

text \<open>The client statements that may bind the global \<open>x\<close> of client \<open>c\<close>.\<close>

fun binds :: "ident \<Rightarrow> ident \<Rightarrow> cop \<Rightarrow> bool" where
  "binds c x (CImport c' m) = (c' = c \<and> m = x)"
| "binds c x (CFromImport c' m y) = (c' = c \<and> y = x)"
| "binds c x (CFromImportAll c' m) = (c' = c)"
| "binds c x (CAssign c' y v) = (c' = c \<and> y = x)"
| "binds c x _ = False"

inductive creachable :: "program \<Rightarrow> (cop \<Rightarrow> bool) \<Rightarrow> world \<Rightarrow> bool"
  for p :: program and allowed :: "cop \<Rightarrow> bool" where
  start: "creachable p allowed world0"
| step: "creachable p allowed w \<Longrightarrow> allowed o1 \<Longrightarrow> creachable p allowed (snd (client_step p o1 w))"

text \<open>
  The clients' invariant: the interpreter state is well formed, and every name a client
  has bound to a module object is the name under which \<open>sys.modules\<close> holds it.
\<close>

definition clients_wf :: "program \<Rightarrow> world \<Rightarrow> bool" where
  "clients_wf p w \<longleftrightarrow> wf_interp p (interp.truncate w) \<and>
     (\<forall>c m a. globals w c m = Some (ObjModule a) \<longrightarrow> sys_modules w m = Some a)"

subsection \<open>The world and the interpreter state\<close>

lemma with_interp_sel [simp]:
  "sys_modules (with_interp w s) = sys_modules s"
  "heap (with_interp w s) = heap s"
  "next_addr (with_interp w s) = next_addr s"
  "globals (with_interp w s) = globals w"
  by (simp_all add: with_interp_def)

lemma truncate_with_interp [simp]: "interp.truncate (with_interp w s) = s"
  by (simp add: with_interp_def interp.defs)

lemma truncate_sel [simp]:
  "sys_modules (interp.truncate w) = sys_modules w"
  "heap (interp.truncate w) = heap w"
  "next_addr (interp.truncate w) = next_addr w"
  by (simp_all add: interp.defs)

lemma truncate_world0 [simp]: "interp.truncate world0 = interp0"
  by (simp add: world0_def interp0_def interp.defs)

lemma bind_global_sel [simp]:
  "interp.truncate (bind_global w c x v) = interp.truncate w"
  "sys_modules (bind_global w c x v) = sys_modules w"
  "heap (bind_global w c x v) = heap w"
  "globals (bind_global w c x v) = (globals w)(c := (globals w c)(x \<mapsto> v))"
  by (simp_all add: bind_global_def interp.defs)

lemma truncate_upd [simp]:
  "interp.truncate (w\<lparr>globals := G\<rparr>) = interp.truncate w"
  "interp.truncate (w\<lparr>heap := H\<rparr>) = (interp.truncate w)\<lparr>heap := H\<rparr>"
  by (simp_all add: interp.defs)

lemma snd_run_Cons:
  "snd (run p (o1 # os) s) = snd (run p os (snd (interp_step p o1 s)))"
  by (cases "interp_step p o1 s", cases "run p os (snd (interp_step p o1 s))") simp

lemma wf_interp_run: "wf_interp p s \<Longrightarrow> wf_interp p (snd (run p os s))"
proof (induction os arbitrary: s)
  case (Cons o1 os)
  then have "wf_interp p (snd (run p os (snd (interp_step p o1 s))))"
    by (simp add: wf_interp_step)
  then show ?case by (simp only: snd_run_Cons)
qed simp

lemma sys_modules_run_mono:
  "sys_modules s m = Some a \<Longrightarrow> sys_modules (snd (run p os s)) m = Some a"
proof (induction os arbitrary: s)
  case (Cons o1 os)
  then have "sys_modules (snd (run p os (snd (interp_step p o1 s)))) m = Some a"
    by (simp add: sys_modules_step_mono)
  then show ?case by (simp only: snd_run_Cons)
qed simp

lemma client_module_Inr:
  "client_module w c m e = Inr (a, g) \<longleftrightarrow> globals w c m = Some (ObjModule a) \<and> heap w a = Some g"
  by (auto simp: client_module_def split: option.splits obj.splits)

lemma client_module_heap_None:
  "globals w c m = Some (ObjModule a) \<Longrightarrow> heap w a = None \<Longrightarrow> client_module w c m e = Inl e"
  by (simp add: client_module_def)

subsection \<open>Client operations refine interpreter operations\<close>

lemma client_step_refines:
  assumes wf: "clients_wf p w"
  shows "interp.truncate (snd (client_step p o1 w)) = snd (run p (core_ops w o1) (interp.truncate w))"
proof (cases o1)
  case (CSetAttr c m x v)
  show ?thesis
  proof (cases "globals w c m")
    case (Some ob)
    show ?thesis
    proof (cases ob)
      case (ObjModule a)
      with Some wf have "sys_modules w m = Some a" by (auto simp: clients_wf_def)
      with Some ObjModule CSetAttr show ?thesis
        by (cases "heap w a") (simp_all add: client_module_def loaded_def)
    qed (simp add: CSetAttr Some client_module_def)
  qed (simp add: CSetAttr client_module_def)
next
  case (CReload c m)
  show ?thesis
  proof (cases "globals w c m")
    case (Some ob)
    show ?thesis
    proof (cases ob)
      case (ObjModule a)
      with Some wf have "sys_modules w m = Some a" by (auto simp: clients_wf_def)
      with Some ObjModule CReload show ?thesis
        by (cases "heap w a"; cases "p m") (simp_all add: client_module_def loaded_def)
    qed (simp add: CReload Some client_module_def)
  qed (simp add: CReload client_module_def)
next
  case (CReadAttr c m x)
  then show ?thesis
    by (simp add: getattr_no_effect split: sum.split prod.split option.split)
qed (auto split: sum.split prod.split option.split)

subsection \<open>The clients' invariant\<close>

lemma public_part_val: "public_part h y = Some ob \<Longrightarrow> \<exists>v. ob = ObjVal v"
  by (auto simp: public_part_def split: if_splits bind_splits)

lemma globals_step_module:
  assumes "globals (snd (client_step p o1 w)) c m = Some (ObjModule a)"
  shows "globals w c m = Some (ObjModule a) \<or>
    (\<exists>s'. import_module p m (interp.truncate w) = Inr (a, s') \<and>
          sys_modules (snd (client_step p o1 w)) = sys_modules s')"
  using assms
proof (cases o1)
  case (CFromImportAll c' m')
  with assms show ?thesis
    by (auto simp: map_add_Some_iff dest: public_part_val split: sum.splits prod.splits if_splits)
qed (auto simp: client_module_def split: sum.splits prod.splits option.splits obj.splits if_splits)

lemma clients_wf_step:
  assumes wf: "clients_wf p w"
  shows "clients_wf p (snd (client_step p o1 w))"
proof -
  let ?w' = "snd (client_step p o1 w)"
  have tr: "interp.truncate ?w' = snd (run p (core_ops w o1) (interp.truncate w))"
    using wf by (rule client_step_refines)
  have "wf_interp p (interp.truncate ?w')"
    unfolding tr using wf by (simp add: clients_wf_def wf_interp_run)
  moreover have "sys_modules ?w' m = Some a"
    if g: "globals ?w' c m = Some (ObjModule a)" for c m a
    using globals_step_module [OF g]
  proof
    assume "globals w c m = Some (ObjModule a)"
    with wf have "sys_modules (interp.truncate w) m = Some a" by (simp add: clients_wf_def)
    from sys_modules_run_mono [OF this, of p "core_ops w o1"] tr
    show ?thesis by (metis truncate_sel(1))
  next
    assume "\<exists>s'. import_module p m (interp.truncate w) = Inr (a, s') \<and> sys_modules ?w' = sys_modules s'"
    then show ?thesis by (metis import_module_caches)
  qed
  ultimately show ?thesis by (simp add: clients_wf_def)
qed

lemma clients_wf0: "clients_wf p world0"
  by (simp add: clients_wf_def wf_interp0) (simp add: world0_def)

lemma creachable_wf: "creachable p allowed w \<Longrightarrow> clients_wf p w"
  by (induction rule: creachable.induct) (simp_all add: clients_wf0 clients_wf_step)

subsection \<open>Client worlds are interpreter states\<close>

lemma creachable_reachable:
  assumes "creachable p allowed w"
    and A: "\<And>o1 w. allowed o1 \<Longrightarrow> list_all A (core_ops w o1)"
  shows "reachable p A (interp.truncate w)"
  using assms(1)
proof (induction rule: creachable.induct)
  case start
  then show ?case by (simp add: reachable.start)
next
  case (step w o1)
  have "interp.truncate (snd (client_step p o1 w)) = snd (run p (core_ops w o1) (interp.truncate w))"
    using creachable_wf [OF step.hyps(1)] by (rule client_step_refines)
  with reachable_run [OF step.IH A [OF step.hyps(2)]] show ?case by simp
qed

lemma core_ops_nonwriting: "\<not> cwrites o1 \<Longrightarrow> list_all (\<lambda>o2. \<not> mutates o2) (core_ops w o1)"
  by (cases o1) (auto split: option.splits obj.splits)

lemma creachable_pristine:
  "creachable p (\<lambda>o1. \<not> cwrites o1) w \<Longrightarrow> pristine p (interp.truncate w)"
  by (erule reachable_pristine [OF creachable_reachable]) (simp_all add: core_ops_nonwriting)

lemma config_program_import:
  assumes "pristine config_program s" and "import_module config_program m s = Inr (a, s')"
  shows "m = ''config'' \<and> heap s' a = Some (config_namespace ''config'')"
proof -
  have "pristine config_program s'"
    using pristine_step [OF assms(1), of "Import m"] assms(2) by simp
  moreover have "sys_modules s' m = Some a" using assms(2) by (rule import_module_caches)
  ultimately obtain b where "config_program m = Some b"
    and "heap s' a = Some (exec_body b (module_init m))"
    unfolding pristine_def by blast
  then show ?thesis by (auto simp: config_program_def config_namespace_def split: if_splits)
qed

subsection \<open>Importing names from the configuration module\<close>

lemma import_config_world:
  assumes "creachable config_program (\<lambda>o1. \<not> cwrites o1) w"
  obtains a s' where "import_module config_program ''config'' (interp.truncate w) = Inr (a, s')"
    and "sys_modules s' ''config'' = Some a" and "heap s' a = Some (config_namespace ''config'')"
proof -
  obtain a s' where h: "import_module config_program ''config'' (interp.truncate w) = Inr (a, s')"
    using import_config_Inr by blast
  have "pristine config_program (interp.truncate w)"
    using assms by (rule creachable_pristine)
  from config_program_import [OF this h] import_module_caches [OF h] h that show ?thesis
    by blast
qed

lemma config_names_public: "x \<in> set config_names \<Longrightarrow> public_name x"
  by (auto simp: config_names_eq public_name_def)

lemma public_part_config_eq:
  "public_part (Some (config_namespace ''config'')) =
     (\<lambda>y. if y \<in> set config_names then map_option ObjVal (config_namespace ''config'' y) else None)"
proof (rule ext)
  fix y
  show "public_part (Some (config_namespace ''config'')) y =
      (if y \<in> set config_names then map_option ObjVal (config_namespace ''config'' y) else None)"
  proof (cases "y \<in> set config_names")
    case False
    then have "y = ''__name__'' \<or> config_namespace ''config'' y = None"
      using dom_config_namespace [of "''config''"] by blast
    with False show ?thesis by (auto simp: public_part_def public_name_def)
  qed (simp add: public_part_def config_names_public)
qed

lemma snd_crun_Cons:
  "snd (crun p (o1 # os) w) = snd (crun p os (snd (client_step p o1 w)))"
  by (cases "client_step p o1 w", cases "crun p os (snd (client_step p o1 w))") simp

lemma creachable_crun:
  "creachable p allowed w \<Longrightarrow> list_all allowed os \<Longrightarrow> creachable p allowed (snd (crun p os w))"
proof (induction os arbitrary: w)
  case (Cons o1 os)
  have "creachable p allowed (snd (client_step p o1 w))"
    using Cons.prems by (simp add: creachable.step)
  with Cons.IH Cons.prems(2) have "creachable p allowed (snd (crun p os (snd (client_step p o1 w))))"
    by simp
  then show ?case by (simp only: snd_crun_Cons)
qed simp

lemma client_step_frame:
  "\<not> binds c x o1 \<Longrightarrow> globals (snd (client_step p o1 w)) c x = globals w c x"
  by (cases o1) (auto simp: client_module_def split: sum.split prod.split option.split obj.split)

lemma crun_frame:
  "list_all (\<lambda>o1. \<not> binds c x o1) os \<Longrightarrow> globals (snd (crun p os w)) c x = globals w c x"
proof (induction os arbitrary: w)
  case (Cons o1 os)
  then have "globals (snd (crun p os (snd (client_step p o1 w)))) c x = globals w c x"
    by (simp add: client_step_frame)
  then show ?case by (simp only: snd_crun_Cons)
qed simp

lemma config_namespace_public_None:
  "public_name x \<Longrightarrow> x \<notin> set config_names \<Longrightarrow> config_namespace ''config'' x = None"
  by (auto simp: config_namespace_lookup public_name_def)

subsection \<open>Properties of the clients\<close>

text \<open>
  C6. \<open>from config import *\<close> binds exactly the eleven settings: in any world without
  writers, the client's globals afterwards are its globals before with each name that
  \<open>config.py\<close> assigns bound to its value.  The module's private \<open>__name__\<close> is not
  copied, so the client keeps its own, and no other client's globals change.
\<close>

theorem star_import_binds_settings:
  "creachable config_program (\<lambda>o1. \<not> cwrites o1) w \<Longrightarrow>
   fst (client_step config_program (CFromImportAll c ''config'') w) = Inr None \<and>
   globals (snd (client_step config_program (CFromImportAll c ''config'') w)) =
     (globals w)(c := (\<lambda>y. if y \<in> set config_names
                           then map_option ObjVal (config_namespace ''config'' y)
                           else globals w c y))"
proof -
  assume r: "creachable config_program (\<lambda>o1. \<not> cwrites o1) w"
  obtain a s' where h: "import_module config_program ''config'' (interp.truncate w) = Inr (a, s')"
    and g: "heap s' a = Some (config_namespace ''config'')"
    using import_config_world [OF r] by blast
  have "globals w c ++ public_part (Some (config_namespace ''config'')) =
      (\<lambda>y. if y \<in> set config_names then map_option ObjVal (config_namespace ''config'' y)
           else globals w c y)"
  proof (rule ext)
    fix y
    show "(globals w c ++ public_part (Some (config_namespace ''config''))) y =
        (if y \<in> set config_names then map_option ObjVal (config_namespace ''config'' y)
         else globals w c y)"
      using config_namespace_defined [of y]
      by (auto simp: public_part_config_eq map_add_def)
  qed
  with h g show ?thesis by simp
qed

theorem star_import_binds_settings_witness:
  "fst (client_step config_program (CFromImportAll ''app'' ''config'') world0) = Inr None \<and>
   globals (snd (client_step config_program (CFromImportAll ''app'' ''config'') world0)) ''app''
     ''KAFKA_REQUEST_TOPIC'' = Some (ObjVal (PyStr ''flight-delay-ml-request'')) \<and>
   globals (snd (client_step config_program (CFromImportAll ''app'' ''config'') world0)) ''app''
     ''__name__'' = Some (ObjVal (PyStr ''app''))"
proof -
  have r: "creachable config_program (\<lambda>o1. \<not> cwrites o1) world0" by (rule creachable.start)
  have t: "config_namespace ''config'' ''KAFKA_REQUEST_TOPIC'' = Some (PyStr ''flight-delay-ml-request'')"
    by (simp add: config_namespace_assign config_body_def KAFKA_REQUEST_TOPIC_def)
  have n: "''KAFKA_REQUEST_TOPIC'' \<in> set config_names" "''__name__'' \<notin> set config_names"
    by (simp_all add: config_names_eq)
  show ?thesis
    using star_import_binds_settings [OF r, of "''app''"] t n by (simp add: world0_def)
qed

text \<open>
  C7. \<open>from config import x\<close> for a public name \<open>x\<close>, by a client in any world without
  writers.  The module is imported, and stays imported even when the statement fails.
  When \<open>config.py\<close> assigns \<open>x\<close>, exactly the client's global \<open>x\<close> changes, to that
  value.  Otherwise the statement raises \<open>ImportError\<close> and binds nothing.  (A module's
  other attributes all have private names, so for a public \<open>x\<close> "defined by the module"
  and "assigned by \<open>config.py\<close>" coincide.)
\<close>

theorem from_import_copies:
  "creachable config_program (\<lambda>o1. \<not> cwrites o1) w \<Longrightarrow> public_name x \<Longrightarrow>
   sys_modules (snd (client_step config_program (CFromImport c ''config'' x) w)) ''config'' \<noteq> None \<and>
   (if x \<in> set config_names
    then fst (client_step config_program (CFromImport c ''config'' x) w) = Inr None \<and>
         globals (snd (client_step config_program (CFromImport c ''config'' x) w)) =
           (globals w)(c := (globals w c)(x := map_option ObjVal (config_namespace ''config'' x)))
    else fst (client_step config_program (CFromImport c ''config'' x) w) = Inl (ImportError x) \<and>
         globals (snd (client_step config_program (CFromImport c ''config'' x) w)) = globals w)"
proof -
  assume r: "creachable config_program (\<lambda>o1. \<not> cwrites o1) w" and x: "public_name x"
  obtain a s' where h: "import_module config_program ''config'' (interp.truncate w) = Inr (a, s')"
    and m: "sys_modules s' ''config'' = Some a" and g: "heap s' a = Some (config_namespace ''config'')"
    using import_config_world [OF r] by blast
  show ?thesis
  proof (cases "x \<in> set config_names")
    case True
    then obtain v where "config_namespace ''config'' x = Some v"
      using config_namespace_defined by blast
    with True h m g show ?thesis by simp
  next
    case False
    with x have "config_namespace ''config'' x = None" by (rule config_namespace_public_None)
    with False h m g show ?thesis by simp
  qed
qed

theorem from_import_copies_witness:
  "sys_modules (snd (client_step config_program (CFromImport ''app'' ''config'' ''FLASK_PORT'') world0))
     ''config'' \<noteq> None \<and>
   globals (snd (client_step config_program (CFromImport ''app'' ''config'' ''FLASK_PORT'') world0))
     ''app'' ''FLASK_PORT'' = Some (ObjVal (PyInt 5001)) \<and>
   fst (client_step config_program (CFromImport ''app'' ''config'' ''FLASK_HOSTNAME'') world0) =
     Inl (ImportError ''FLASK_HOSTNAME'')"
proof -
  have r: "creachable config_program (\<lambda>o1. \<not> cwrites o1) world0" by (rule creachable.start)
  have port: "config_namespace ''config'' ''FLASK_PORT'' = Some (PyInt 5001)"
    by (simp add: config_namespace_assign config_body_def FLASK_PORT_def)
  have p: "public_name ''FLASK_PORT''" "public_name ''FLASK_HOSTNAME''"
    by (simp_all add: public_name_def)
  have n: "''FLASK_PORT'' \<in> set config_names" "''FLASK_HOSTNAME'' \<notin> set config_names"
    by (simp_all add: config_names_eq)
  show ?thesis
    using from_import_copies [OF r p(1), of "''app''"]
      from_import_copies [OF r p(2), of "''app''"] port n
    by simp
qed

text \<open>
  C8. A \<open>from\<close>-import is a snapshot.  After \<open>from config import x\<close> in a world without
  writers, the client's global \<open>x\<close> holds the value \<open>config.py\<close> assigns.  It keeps
  that value through any later statements of any clients that do not bind that
  client's \<open>x\<close>: assignments \<open>config.x = v\<close>, reloads, and imports by other clients.
  Every write to the module attribute leaves the copy behind.
\<close>

theorem from_import_snapshot:
  "creachable config_program (\<lambda>o1. \<not> cwrites o1) w \<Longrightarrow> x \<in> set config_names \<Longrightarrow>
   list_all (\<lambda>o1. \<not> binds c x o1) os \<Longrightarrow>
   globals (snd (crun config_program (CFromImport c ''config'' x # os) w)) c x =
     map_option ObjVal (config_namespace ''config'' x)"
proof -
  assume r: "creachable config_program (\<lambda>o1. \<not> cwrites o1) w" and x: "x \<in> set config_names"
    and os: "list_all (\<lambda>o1. \<not> binds c x o1) os"
  obtain a s' where h: "import_module config_program ''config'' (interp.truncate w) = Inr (a, s')"
    and g: "heap s' a = Some (config_namespace ''config'')"
    using import_config_world [OF r] by blast
  obtain v where v: "config_namespace ''config'' x = Some v"
    using config_namespace_defined [OF x] by blast
  have "globals (snd (client_step config_program (CFromImport c ''config'' x) w)) c x = Some (ObjVal v)"
    using h g v by simp
  with crun_frame [OF os, of config_program] v show ?thesis
    by (simp only: snd_crun_Cons option.map)
qed

theorem from_import_snapshot_witness:
  "globals (snd (crun config_program
     [CFromImport ''app'' ''config'' ''FLASK_PORT'', CImport ''admin'' ''config'',
      CSetAttr ''admin'' ''config'' ''FLASK_PORT'' (PyInt 8000), CReload ''admin'' ''config'',
      CSetAttr ''admin'' ''config'' ''FLASK_PORT'' (PyInt 8000)] world0)) ''app'' ''FLASK_PORT'' =
     Some (ObjVal (PyInt 5001)) \<and>
   fst (client_step config_program (CReadAttr ''admin'' ''config'' ''FLASK_PORT'')
     (snd (crun config_program
       [CFromImport ''app'' ''config'' ''FLASK_PORT'', CImport ''admin'' ''config'',
        CSetAttr ''admin'' ''config'' ''FLASK_PORT'' (PyInt 8000), CReload ''admin'' ''config'',
        CSetAttr ''admin'' ''config'' ''FLASK_PORT'' (PyInt 8000)] world0))) =
     Inr (Some (ObjVal (PyInt 8000)))"
proof -
  have r: "creachable config_program (\<lambda>o1. \<not> cwrites o1) world0" by (rule creachable.start)
  have x: "''FLASK_PORT'' \<in> set config_names" by (simp add: config_names_eq)
  have os: "list_all (\<lambda>o1. \<not> binds ''app'' ''FLASK_PORT'' o1)
     [CImport ''admin'' ''config'', CSetAttr ''admin'' ''config'' ''FLASK_PORT'' (PyInt 8000),
      CReload ''admin'' ''config'', CSetAttr ''admin'' ''config'' ''FLASK_PORT'' (PyInt 8000)]"
    by simp
  have port: "config_namespace ''config'' ''FLASK_PORT'' = Some (PyInt 5001)"
    by (simp add: config_namespace_assign config_body_def FLASK_PORT_def)
  have "fst (client_step config_program (CReadAttr ''admin'' ''config'' ''FLASK_PORT'')
     (snd (crun config_program
       [CFromImport ''app'' ''config'' ''FLASK_PORT'', CImport ''admin'' ''config'',
        CSetAttr ''admin'' ''config'' ''FLASK_PORT'' (PyInt 8000), CReload ''admin'' ''config'',
        CSetAttr ''admin'' ''config'' ''FLASK_PORT'' (PyInt 8000)] world0))) =
     Inr (Some (ObjVal (PyInt 8000)))"
    by (simp add: import_module_def world0_def interp.defs client_module_def
        config_namespace_def [symmetric] port exec_body_idem)
  with from_import_snapshot [OF r x os] port show ?thesis by simp
qed

end
