(* ===== verification/Endpoints.thy ===== *)
theory Endpoints
  imports Config_Module
begin

text \<open>
  What the consumers of \<open>config.py\<close> read out of the broker address and the port, as
  the spec's external-interface section lists them: a broker address \<open>host:port\<close> for
  the Kafka client, and an integer port for the Flask server.  A port is a 16-bit
  unsigned word, as in the socket layer.  Decimal ports are read digit by digit and
  rejected beyond 65535 instead of wrapping, and \<open>bind_port\<close> rejects an integer
  outside \<open>0..65535\<close>.  A host and port are split at the last colon, as
  \<open>str.rsplit(':', 1)\<close> does.  The decimal and splitting functions here are shared with
  the connection-string parser of \<open>Mongo_Uri\<close>.
\<close>

subsection \<open>Decimal numbers and ports\<close>

definition is_digit :: "char \<Rightarrow> bool" where
  "is_digit c \<longleftrightarrow> 48 \<le> (of_char c :: nat) \<and> (of_char c :: nat) < 58"

definition digit_val :: "char \<Rightarrow> nat" where
  "digit_val c = of_char c - 48"

definition digit_char :: "nat \<Rightarrow> char" where
  "digit_char d = ''0123456789'' ! d"

fun dec_acc :: "nat \<Rightarrow> string \<Rightarrow> nat" where
  "dec_acc n [] = n"
| "dec_acc n (c # cs) = dec_acc (10 * n + digit_val c) cs"

definition parse_dec :: "string \<Rightarrow> nat option" where
  "parse_dec s = (if s \<noteq> [] \<and> list_all is_digit s then Some (dec_acc 0 s) else None)"

fun show_dec :: "nat \<Rightarrow> string" where
  "show_dec n = (if n < 10 then [digit_char n] else show_dec (n div 10) @ [digit_char (n mod 10)])"

declare show_dec.simps [simp del]

definition parse_port :: "string \<Rightarrow> 16 word option" where
  "parse_port s =
     (case parse_dec s of None \<Rightarrow> None | Some n \<Rightarrow> if n < 65536 then Some (of_nat n) else None)"

definition show_port :: "16 word \<Rightarrow> string" where
  "show_port w = show_dec (unat w)"

text \<open>
  The socket layer's check on an integer port: outside \<open>0..65535\<close> it raises
  (\<open>OverflowError\<close>), it does not reduce the number modulo \<open>2^16\<close>.
\<close>

definition bind_port :: "int \<Rightarrow> 16 word option" where
  "bind_port p = (if 0 \<le> p \<and> p < 65536 then Some (word_of_int p) else None)"

subsection \<open>Host and port\<close>

definition split_last :: "char \<Rightarrow> string \<Rightarrow> (string \<times> string) option" where
  "split_last c s =
     (if c \<in> set s
      then Some (rev (tl (dropWhile (\<lambda>x. x \<noteq> c) (rev s))), rev (takeWhile (\<lambda>x. x \<noteq> c) (rev s)))
      else None)"

definition parse_hostport :: "string \<Rightarrow> (string \<times> 16 word) option" where
  "parse_hostport s =
     (case split_last CHR '':'' s of
        None \<Rightarrow> None
      | Some (h, p) \<Rightarrow>
          if h = [] then None
          else (case parse_port p of None \<Rightarrow> None | Some w \<Rightarrow> Some (h, w)))"

definition show_hostport :: "string \<Rightarrow> 16 word \<Rightarrow> string" where
  "show_hostport h w = h @ CHR '':'' # show_port w"

subsection \<open>Splitting at a character\<close>

fun split_on :: "char \<Rightarrow> string \<Rightarrow> string list" where
  "split_on c [] = [[]]"
| "split_on c (x # xs) =
     (if x = c then [] # split_on c xs
      else (case split_on c xs of [] \<Rightarrow> [[x]] | w # ws \<Rightarrow> (x # w) # ws))"

subsection \<open>Digits\<close>

lemma digit_char_props: "d < 10 \<Longrightarrow> digit_val (digit_char d) = d \<and> is_digit (digit_char d)"
  by (auto simp: digit_val_def is_digit_def digit_char_def less_Suc_eq numeral_eq_Suc)

lemma digit_val_char [simp]: "d < 10 \<Longrightarrow> digit_val (digit_char d) = d"
  and is_digit_char [simp]: "d < 10 \<Longrightarrow> is_digit (digit_char d)"
  by (simp_all add: digit_char_props)

lemma dec_acc_append: "dec_acc n (xs @ ys) = dec_acc (dec_acc n xs) ys"
  by (induction xs arbitrary: n) simp_all

lemma show_dec_digits: "list_all is_digit (show_dec n)"
proof (induction n rule: show_dec.induct)
  case (1 n)
  then show ?case by (subst show_dec.simps) simp
qed

lemma show_dec_ne [simp]: "show_dec n \<noteq> []"
  by (subst show_dec.simps) simp

lemma dec_acc_show_dec: "dec_acc 0 (show_dec n) = n"
proof (induction n rule: show_dec.induct)
  case (1 n)
  show ?case
  proof (cases "n < 10")
    case True
    then show ?thesis by (subst show_dec.simps) simp
  next
    case False
    with "1.IH" have "dec_acc 0 (show_dec (n div 10)) = n div 10" by simp
    with False show ?thesis by (subst show_dec.simps) (simp add: dec_acc_append)
  qed
qed

lemma parse_show_dec [simp]: "parse_dec (show_dec n) = Some n"
  by (simp add: parse_dec_def show_dec_digits dec_acc_show_dec)

lemma not_digit_colon [simp]: "\<not> is_digit CHR '':''"
  and not_digit_slash [simp]: "\<not> is_digit CHR ''/''"
  and not_digit_dot [simp]: "\<not> is_digit CHR ''.''"
  by (simp_all add: is_digit_def)

lemma show_dec_no_char: "\<not> is_digit c \<Longrightarrow> c \<notin> set (show_dec n)"
  using show_dec_digits [of n] by (auto simp: list_all_iff)

subsection \<open>Round trips and bounds\<close>

lemma unat_port_bound [simp]: "unat (w :: 16 word) < 65536"
  using unsigned_less [of w] by simp

lemma parse_show_port [simp]: "parse_port (show_port w) = Some w"
  by (simp add: parse_port_def show_port_def)

lemma split_last_append:
  assumes "c \<notin> set t"
  shows "split_last c (h @ c # t) = Some (h, t)"
proof -
  have r: "rev (h @ c # t) = rev t @ c # rev h" by simp
  have nt: "\<And>x. x \<in> set (rev t) \<Longrightarrow> x \<noteq> c" using assms by auto
  have "takeWhile (\<lambda>x. x \<noteq> c) (rev t @ c # rev h) = rev t @ takeWhile (\<lambda>x. x \<noteq> c) (c # rev h)"
    using nt by (rule takeWhile_append2)
  moreover have "dropWhile (\<lambda>x. x \<noteq> c) (rev t @ c # rev h) = dropWhile (\<lambda>x. x \<noteq> c) (c # rev h)"
    using nt by (rule dropWhile_append2)
  ultimately show ?thesis by (simp add: split_last_def r)
qed

lemma parse_show_hostport:
  "h \<noteq> [] \<Longrightarrow> parse_hostport (show_hostport h w) = Some (h, w)"
proof -
  assume h: "h \<noteq> []"
  have "CHR '':'' \<notin> set (show_port w)"
    by (simp add: show_port_def show_dec_no_char)
  then have "split_last CHR '':'' (show_hostport h w) = Some (h, show_port w)"
    by (simp add: show_hostport_def split_last_append)
  with h show ?thesis by (simp add: parse_hostport_def)
qed

lemma take_drop_upto:
  assumes "c \<notin> set a" and "p = [] \<or> hd p = c"
  shows "takeWhile (\<lambda>x. x \<noteq> c) (a @ p) = a \<and> dropWhile (\<lambda>x. x \<noteq> c) (a @ p) = p"
  using assms
proof (induction a)
  case Nil
  then show ?case by (cases p) auto
qed auto

lemma split_on_no: "c \<notin> set xs \<Longrightarrow> split_on c xs = [xs]"
  by (induction xs) auto

lemma split_on_append: "c \<notin> set xs \<Longrightarrow> split_on c (xs @ c # ys) = xs # split_on c ys"
proof (induction xs)
  case (Cons x xs)
  then show ?case by (cases "split_on c (xs @ c # ys)") auto
qed simp

subsection \<open>The configured endpoints\<close>

lemmas show_dec_eval = show_dec.simps digit_char_def

lemma kafka_bootstrap_shown: "KAFKA_BOOTSTRAP_SERVERS = show_hostport ''kafka'' 9092"
  by (simp add: KAFKA_BOOTSTRAP_SERVERS_def show_hostport_def show_port_def show_dec_eval)

lemma kafka_bootstrap_parsed: "parse_hostport KAFKA_BOOTSTRAP_SERVERS = Some (''kafka'', 9092)"
  by (simp add: kafka_bootstrap_shown parse_show_hostport)

lemma flask_port_bound: "bind_port FLASK_PORT = Some 5001"
  by (simp add: bind_port_def FLASK_PORT_def)

end
