(* ===== verification/Mongo_Uri.thy ===== *)
theory Mongo_Uri
  imports Endpoints
begin

text \<open>
  The document-store client's reading of \<open>MONGO_URI\<close> (\<open>config.py\<close> line 12): the
  MongoDB connection string \<open>mongodb://[userinfo@]host1[:port1][,host2[:port2]...]/[db][?options]\<close>
  as the Python driver parses it (\<open>pymongo.uri_parser\<close>: \<open>parse_uri\<close>, \<open>split_hosts\<close>,
  \<open>parse_host\<close>).
  \<^item> \<open>parse_host\<close> reads one host entry: an IPv6 literal in brackets, a Unix socket
    path ending in \<open>.sock\<close>, \<open>host:port\<close> or a bare host.  A port must be decimal
    digits between 1 and 65535.  More than one colon outside brackets is an error.  The
    host name is lowercased.
  \<^item> \<open>split_hosts\<close> splits the host list at commas.  An empty entry (a leading,
    trailing or doubled comma) is an error, and a bare host gets the default port.
  \<^item> \<open>parse_mongo_uri\<close> checks the scheme, separates the host list from the
    \<open>/db?options\<close> part, splits \<open>db.collection\<close>, rejects the database name's
    forbidden characters and a \<open>/\<close> left in the host list, and takes the user info
    before the last \<open>@\<close>.
  Each \<open>raise\<close> of the driver is an \<open>Inl\<close> value of \<open>uri_error\<close>.
  Not modelled: the driver's percent-decoding (\<open>unquote_plus\<close>) of the host list and
  the database name, which this model takes as the identity.  It is the identity exactly
  on text without \<open>%\<close> and \<open>+\<close>, which is all the text the properties below
  parse.  Also not modelled: \<open>mongodb+srv://\<close>, and the meaning of the options and the
  user info, which are kept as raw text.
\<close>

datatype uri_error =
    InvalidScheme | NoHost | SlashBeforeOptions | BadDatabase string | SocketSlash
  | EmptyHost | BadIPv6 string | ReservedColon string | BadPort string

record mongo_conn =
  seeds :: "(string \<times> 16 word option) list"
  conn_db :: "string option"
  conn_collection :: "string option"
  conn_userinfo :: "string option"
  conn_options :: string

definition upper_chars :: string where
  "upper_chars = ''ABCDEFGHIJKLMNOPQRSTUVWXYZ''"

definition lower_chars :: string where
  "lower_chars = ''abcdefghijklmnopqrstuvwxyz''"

definition str_lower :: "string \<Rightarrow> string" where
  "str_lower = map (\<lambda>c. case map_of (zip upper_chars lower_chars) c of None \<Rightarrow> c | Some l \<Rightarrow> l)"

definition ends_with :: "string \<Rightarrow> string \<Rightarrow> bool" where
  "ends_with suf s \<longleftrightarrow> length suf \<le> length s \<and> drop (length s - length suf) s = suf"

text \<open>The text before the first \<open>]:\<close> of an entry and the text after it.\<close>

fun find_close :: "string \<Rightarrow> (string \<times> string) option" where
  "find_close [] = None"
| "find_close [x] = None"
| "find_close (x # y # r) =
     (if x = CHR '']'' \<and> y = CHR '':'' then Some ([], r)
      else map_option (\<lambda>(a, b). (x # a, b)) (find_close (y # r)))"

definition check_port :: "string \<Rightarrow> uri_error + 16 word" where
  "check_port ps =
     (case parse_dec ps of
        None \<Rightarrow> Inl (BadPort ps)
      | Some n \<Rightarrow> if 0 < n \<and> n \<le> 65535 then Inr (of_nat n) else Inl (BadPort ps))"

definition parse_host :: "16 word option \<Rightarrow> string \<Rightarrow> uri_error + (string \<times> 16 word option)" where
  "parse_host d e =
     (if e \<noteq> [] \<and> hd e = CHR ''['' then
        (if CHR '']'' \<notin> set e then Inl (BadIPv6 e)
         else (case find_close e of
                 None \<Rightarrow> Inr (str_lower (butlast (tl e)), d)
               | Some (h, ps) \<Rightarrow>
                   (case check_port ps of Inl err \<Rightarrow> Inl err | Inr w \<Rightarrow> Inr (str_lower (tl h), Some w))))
      else if ends_with ''.sock'' e then Inr (e, d)
      else if CHR '':'' \<in> set e then
        (if 1 < count_list e CHR '':'' then Inl (ReservedColon e)
         else (case check_port (drop 1 (dropWhile (\<lambda>x. x \<noteq> CHR '':'') e)) of
                 Inl err \<Rightarrow> Inl err
               | Inr w \<Rightarrow> Inr (str_lower (takeWhile (\<lambda>x. x \<noteq> CHR '':'') e), Some w)))
      else Inr (str_lower e, d))"

fun split_entities :: "16 word option \<Rightarrow> string list \<Rightarrow> uri_error + (string \<times> 16 word option) list" where
  "split_entities d [] = Inr []"
| "split_entities d (e # es) =
     (if e = [] then Inl EmptyHost
      else (case parse_host (if ends_with ''.sock'' e then None else d) e of
              Inl err \<Rightarrow> Inl err
            | Inr n \<Rightarrow> (case split_entities d es of Inl err \<Rightarrow> Inl err | Inr ns \<Rightarrow> Inr (n # ns))))"

definition split_hosts :: "16 word option \<Rightarrow> string \<Rightarrow> uri_error + (string \<times> 16 word option) list" where
  "split_hosts d s = split_entities d (split_on CHR '','' s)"

definition bad_db_chars :: string where
  "bad_db_chars = ''/ \"$''"

definition parse_mongo_uri :: "string \<Rightarrow> uri_error + mongo_conn" where
  "parse_mongo_uri uri =
     (if take 10 uri \<noteq> ''mongodb://'' then Inl InvalidScheme
      else
        (let sf = drop 10 uri;
             hp0 = takeWhile (\<lambda>x. x \<noteq> CHR ''/'') sf;
             pp0 = drop 1 (dropWhile (\<lambda>x. x \<noteq> CHR ''/'') sf);
             hp = (if hp0 = [] then pp0 else hp0);
             pp = (if hp0 = [] then [] else pp0);
             db0 = takeWhile (\<lambda>x. x \<noteq> CHR ''?'') pp;
             opts = drop 1 (dropWhile (\<lambda>x. x \<noteq> CHR ''?'') pp);
             db = takeWhile (\<lambda>x. x \<noteq> CHR ''.'') db0;
             coll = (if CHR ''.'' \<in> set db0 then Some (drop 1 (dropWhile (\<lambda>x. x \<noteq> CHR ''.'') db0))
                     else None);
             ui = map_option fst (split_last CHR ''@'' hp);
             hosts = (case split_last CHR ''@'' hp of None \<Rightarrow> hp | Some (_, h) \<Rightarrow> h)
         in if sf = [] then Inl NoHost
            else if pp = [] \<and> CHR ''?'' \<in> set hp then Inl SlashBeforeOptions
            else if db0 \<noteq> [] \<and> (\<exists>c\<in>set db. c \<in> set bad_db_chars) then Inl (BadDatabase db)
            else if CHR ''/'' \<in> set hosts then Inl SocketSlash
            else (case split_hosts (Some 27017) hosts of
                    Inl err \<Rightarrow> Inl err
                  | Inr ns \<Rightarrow>
                      Inr \<lparr>seeds = ns, conn_db = (if db0 = [] then None else Some db),
                           conn_collection = (if db0 = [] then None else coll),
                           conn_userinfo = ui, conn_options = opts\<rparr>)))"







subsection \<open>Host entries\<close>

lemma not_digit_comma [simp]: "\<not> is_digit CHR '',''"
  and not_digit_k [simp]: "\<not> is_digit CHR ''k''"
  by (simp_all add: is_digit_def)

lemma digits_not_sock:
  assumes "ds \<noteq> []" and "list_all is_digit ds"
  shows "\<not> ends_with ''.sock'' (xs @ ds)"
proof
  assume e: "ends_with ''.sock'' (xs @ ds)"
  then have "last (xs @ ds) = last ''.sock''"
    unfolding ends_with_def by (metis last_drop list.distinct(1) drop_eq_Nil2 not_le)
  moreover have "is_digit (last (xs @ ds))"
    using assms by (simp add: list_all_iff)
  ultimately show False by simp
qed


text \<open>A \<open>host:digits\<close> entry is read by the port check, whatever the default port.\<close>

lemma parse_host_tcp:
  assumes h: "CHR '':'' \<notin> set h" "h \<noteq> []" "hd h \<noteq> CHR ''[''"
    and ds: "ds \<noteq> []" "list_all is_digit ds"
  shows "parse_host d (h @ CHR '':'' # ds) =
    (case check_port ds of Inl err \<Rightarrow> Inl err | Inr w \<Rightarrow> Inr (str_lower h, Some w))"
proof -
  have nc: "CHR '':'' \<notin> set ds" using ds(2) by (auto simp: list_all_iff)
  have "\<not> ends_with ''.sock'' ((h @ [CHR '':'']) @ ds)" using ds by (rule digits_not_sock)
  moreover have "count_list (h @ CHR '':'' # ds) CHR '':'' = 1"
    using h(1) nc by (simp add: count_list_0_iff)
  moreover obtain tw: "takeWhile (\<lambda>x. x \<noteq> CHR '':'') (h @ CHR '':'' # ds) = h"
    and dw: "dropWhile (\<lambda>x. x \<noteq> CHR '':'') (h @ CHR '':'' # ds) = CHR '':'' # ds"
    using take_drop_upto [OF h(1), of "CHR '':'' # ds"] by simp
  ultimately have "parse_host d (h @ CHR '':'' # ds) =
      (case check_port ds of
         Inl err \<Rightarrow> Inl err
       | Inr w \<Rightarrow> Inr (str_lower (takeWhile (\<lambda>x. x \<noteq> CHR '':'') (h @ CHR '':'' # ds)), Some w))"
    using h by (simp add: parse_host_def dw)
  then show ?thesis by (simp only: tw)
qed


subsection \<open>Host lists\<close>





lemma show_port_chars [simp]:
  "CHR ''/'' \<notin> set (show_port p)" "CHR ''?'' \<notin> set (show_port p)"
  "CHR ''@'' \<notin> set (show_port p)" "CHR '','' \<notin> set (show_port p)"
  by (simp_all add: show_port_def show_dec_no_char is_digit_def)


text \<open>
  A connection string \<open>mongodb://X/\<close> whose host list \<open>X\<close> holds none of the URI's
  separators is read by \<open>split_hosts\<close> alone, with the default port 27017.
\<close>

lemma parse_mongo_uri_hosts:
  assumes x: "X \<noteq> []" "CHR ''/'' \<notin> set X" "CHR ''?'' \<notin> set X" "CHR ''@'' \<notin> set X"
  shows "parse_mongo_uri (''mongodb://'' @ X @ ''/'') =
    (case split_hosts (Some 27017) X of
       Inl err \<Rightarrow> Inl err
     | Inr ns \<Rightarrow> Inr \<lparr>seeds = ns, conn_db = None, conn_collection = None,
                      conn_userinfo = None, conn_options = []\<rparr>)"
proof -
  obtain tw: "takeWhile (\<lambda>x. x \<noteq> CHR ''/'') (X @ ''/'') = X"
    and dw: "dropWhile (\<lambda>x. x \<noteq> CHR ''/'') (X @ ''/'') = ''/''"
    using take_drop_upto [OF x(2), of "''/''"] by simp
  have sl: "split_last CHR ''@'' X = None" using x(4) by (simp add: split_last_def)
  show ?thesis using x by (simp add: parse_mongo_uri_def tw dw sl split: sum.split)
qed




lemma split_hosts_host_port:
  assumes h: "CHR '':'' \<notin> set h" "CHR '','' \<notin> set h" "h \<noteq> []" "hd h \<noteq> CHR ''[''"
  shows "split_hosts d (h @ CHR '':'' # show_dec n) =
     (case check_port (show_dec n) of Inl err \<Rightarrow> Inl err | Inr w \<Rightarrow> Inr [(str_lower h, Some w)])"
proof -
  have nc: "CHR '','' \<notin> set (h @ CHR '':'' # show_dec n)"
    using h(2) by (simp add: show_dec_no_char)
  have ns: "\<not> ends_with ''.sock'' ((h @ [CHR '':'']) @ show_dec n)"
    by (rule digits_not_sock) (simp_all add: show_dec_digits)
  have "split_hosts d (h @ CHR '':'' # show_dec n) = split_entities d [h @ CHR '':'' # show_dec n]"
    using nc by (simp add: split_hosts_def split_on_no)
  also have "\<dots> = (case parse_host d (h @ CHR '':'' # show_dec n) of
      Inl err \<Rightarrow> Inl err | Inr n' \<Rightarrow> Inr [n'])"
    using ns by (simp split: sum.split)
  finally show ?thesis
    using h by (simp add: parse_host_tcp show_dec_digits split: sum.split)
qed

subsection \<open>Properties of the connection string\<close>



text \<open>
  C9. Port bounds for line 12: \<open>MONGO_URI\<close> is \<open>mongodb://mongo:27017/\<close>, and the same
  string with any decimal port \<open>n\<close> in place of 27017 is accepted exactly when
  \<open>1 \<le> n \<le> 65535\<close>, with the 16-bit port \<open>n\<close>, not \<open>n\<close> reduced modulo \<open>2^16\<close>.
  Any other \<open>n\<close>, 0 included, is rejected with the port text.
\<close>

theorem mongo_port_bounds:
  "MONGO_URI = ''mongodb://mongo:'' @ show_dec 27017 @ ''/'' \<and>
   parse_mongo_uri (''mongodb://mongo:'' @ show_dec n @ ''/'') =
     (if 0 < n \<and> n \<le> 65535
      then Inr \<lparr>seeds = [(''mongo'', Some (of_nat n))], conn_db = None, conn_collection = None,
                conn_userinfo = None, conn_options = []\<rparr>
      else Inl (BadPort (show_dec n)))"
proof
  show "MONGO_URI = ''mongodb://mongo:'' @ show_dec 27017 @ ''/''"
    by (simp add: MONGO_URI_def show_dec_eval)
next
  let ?X = "''mongo'' @ CHR '':'' # show_dec n"
  have eq: "''mongodb://mongo:'' @ show_dec n @ ''/'' = ''mongodb://'' @ ?X @ ''/''" by simp
  have x: "?X \<noteq> []" "CHR ''/'' \<notin> set ?X" "CHR ''?'' \<notin> set ?X" "CHR ''@'' \<notin> set ?X"
    by (simp_all add: show_dec_no_char is_digit_def)
  have l: "str_lower ''mongo'' = ''mongo''"
    by (simp add: str_lower_def upper_chars_def lower_chars_def)
  have sp: "split_hosts (Some 27017) ?X =
      (if 0 < n \<and> n \<le> 65535 then Inr [(''mongo'', Some (of_nat n))] else Inl (BadPort (show_dec n)))"
    using split_hosts_host_port [of "''mongo''" "Some 27017" n] l by (simp add: check_port_def)
  show "parse_mongo_uri (''mongodb://mongo:'' @ show_dec n @ ''/'') =
     (if 0 < n \<and> n \<le> 65535
      then Inr \<lparr>seeds = [(''mongo'', Some (of_nat n))], conn_db = None, conn_collection = None,
                conn_userinfo = None, conn_options = []\<rparr>
      else Inl (BadPort (show_dec n)))"
    unfolding eq parse_mongo_uri_hosts [OF x] sp by simp
qed

end
