(* ===== verification/Spec2Isabelle.thy ===== *)
theory Spec2Isabelle
  imports Concurrent_Readers Py_Clients Mongo_Uri
begin

text \<open>
  \<^bold>\<open>A verification development of the configuration module of Flight-Predictions-IBDN.\<close>

  \<^emph>\<open>The program.\<close>  The repository's only source is
  \<open>src/resources/web/config.py\<close>.  It holds eleven module-level constants read at
  start-up by the web application, the stream-processing job and the batch job:
  \<^item> a Kafka broker address (\<open>KAFKA_BOOTSTRAP_SERVERS\<close>) and two topic names
    (\<open>KAFKA_REQUEST_TOPIC\<close>, \<open>KAFKA_RESPONSE_TOPIC\<close>);
  \<^item> an Elasticsearch base URL (\<open>ELASTIC_URL\<close>);
  \<^item> a MongoDB connection URI, a database name and two collection names
    (\<open>MONGO_URI\<close>, \<open>MONGO_DB_NAME\<close>, \<open>MONGO_COLLECTION_RESULTS\<close>,
    \<open>MONGO_COLLECTION_DISTANCES\<close>);
  \<^item> a Spark master UI URL (\<open>SPARK_MASTER_UI_URL\<close>);
  \<^item> the Flask bind address (\<open>FLASK_HOST\<close>, a string, and \<open>FLASK_PORT\<close>, an int).
  The module has no functions.  Its behaviour is what Python does with it.  Importing
  it runs the body's assignments in order into a fresh module object, which
  \<open>sys.modules\<close> caches.  Every consumer then reads attributes of that object, or
  copies them into its own globals with \<open>from config import ...\<close>.  A consumer may also
  assign them or reload the module.  The consumers parse the string values, such as
  the broker address and the MongoDB connection string.

  \<^emph>\<open>The theories\<close>, in import order.
  \<^item> \<open>Config_Prelude\<close>: the types \<open>ident\<close> and \<open>'v ns\<close> (a namespace is a map
    from identifiers), the collections \<open>config_defs\<close> (the literal values) and
    \<open>ns_simps\<close> (namespace rewriting), and \<open>bind_all\<close>, a fold of map updates, with
    its lookup lemmas and its order independence when the keys are distinct.
  \<^item> \<open>Py_Module\<close>: Python's semantics for such a module body.
    \<^item> values \<open>pyval\<close> (\<open>str\<close> or \<open>int\<close>) and statements \<open>stmt\<close> (\<open>NAME = literal\<close>);
    \<^item> \<open>exec_body\<close>, the body run left to right, and \<open>module_init\<close>, the fresh
      namespace holding \<open>__name__\<close>;
    \<^item> attribute reads \<open>module_getattr\<close>, and errors as \<open>Inl\<close> values of
      \<open>py_error + _\<close>.
  \<^item> \<open>Config_Module\<close>: one HOL constant per source constant, with the source's name and
    literal (lines 4 to 23).  \<open>config_body\<close> is the body and \<open>config_namespace\<close> the
    loaded module.  Claims C1 and C2.
  \<^item> \<open>Py_Import\<close>: the import system as a state machine.
    \<^item> The state \<open>interp\<close> holds \<open>sys.modules\<close>, a heap of module objects and the next
      free address.
    \<^item> Operations \<open>op\<close>: \<open>Import\<close> (\<open>import_module\<close>: the cached object, or a fresh
      one with its body run), \<open>GetAttr\<close>, \<open>SetAttr\<close>, \<open>DelAttr\<close> and \<open>Reload\<close>.
    \<^item> \<open>interp_step\<close> is one operation and \<open>run\<close> a sequence of them.
    \<^item> \<open>reachable\<close> is the inductive set of states that any interleaving of a chosen
      class of operations reaches.
    \<^item> Invariants by rule induction: \<open>wf_interp\<close> for all operations, and
      \<open>pristine\<close> (every cached object holds its fresh-load namespace) for all
      operations but the writes.
    Claim C3.
  \<^item> \<open>Concurrent_Readers\<close>: threads sharing the interpreter.  A concurrent run is an
    interleaving (the inductive \<open>interleave\<close>) of the threads' operation lists.
    \<open>guarded\<close> says a thread names \<open>config\<close> only after its own import.  Claim C5.
  \<^item> \<open>Py_Clients\<close>: the consumers' statements, each client module with its own
    globals.
    \<^item> \<open>world\<close> extends \<open>interp\<close> by \<open>globals\<close>.  \<open>client_step\<close> runs one statement:
      \<open>import m\<close>, \<open>from m import x\<close>, \<open>from m import *\<close>, global and attribute
      reads, \<open>m.x = v\<close>, \<open>importlib.reload(m)\<close> and the client's own assignment.
    \<^item> \<open>creachable\<close> is the set of reachable worlds.
    \<^item> A lemma shows that every client statement acts on the shared state as the
      interpreter operations \<open>core_ops\<close> do.  So client worlds are states of
      \<open>Py_Import\<close>'s model, and its invariants carry over.
    \<^item> \<open>binds\<close> lists the statements that may bind a client's global.
    Claims C6 to C8.
  \<^item> \<open>Endpoints\<close>: decimal numbers and 16-bit ports, \<open>host:port\<close> split at the last
    colon (\<open>parse_hostport\<close>) as the Kafka client splits its broker address, and the
    socket layer's port check \<open>bind_port\<close>.
  \<^item> \<open>Mongo_Uri\<close>: the MongoDB driver's reading of \<open>MONGO_URI\<close>, after
    \<open>pymongo.uri_parser\<close> (\<open>parse_host\<close>, \<open>split_hosts\<close>, \<open>parse_mongo_uri\<close>), with
    every driver exception as an \<open>Inl\<close> value of \<open>uri_error\<close>.  Claims C9 and C10.
  \<^item> This theory: claim C4, which spans the import system and the consumers' parsers.

  \<^emph>\<open>What the claims show.\<close>
  \<^item> C1: each setting of the loaded module is the literal of the spec's table, with its
    type (the port an \<open>int\<close>).  C2: the assignments bind distinct names, so every order
    of the body gives the same namespace.
  \<^item> C3: in every state reached by imports, reads and reloads in any interleaving, the
    module holds its fresh-load namespace.  This is the spec's immutability, for
    clients that never write.
  \<^item> C4: in any such state, the broker address a consumer reads after \<open>import config\<close>
    splits into \<open>kafka\<close> and 9092, and the port it reads binds to the 16-bit port 5001.
  \<^item> C5: for two read-only threads that import before they read, every interleaving
    gives each read the fresh-load value.
  \<^item> C6: \<open>from config import *\<close> binds exactly the eleven settings and keeps the
    client's private names.
  \<^item> C7: \<open>from config import x\<close> for a public \<open>x\<close> binds exactly \<open>x\<close> to its value,
    or raises \<open>ImportError\<close>; either way the module is left imported.
  \<^item> C8: a \<open>from\<close>-imported copy keeps the load value through any later statements
    that do not rebind it, writes to \<open>config.x\<close> and reloads included.
  \<^item> C9: the port of line 12 is accepted exactly in \<open>1..65535\<close>, as the 16-bit word
    without wrap-around, and otherwise rejected.
  \<^item> C10: \<open>MONGO_URI\<close> is the printed form of its one seed, and every connection
    string of that shape reads back exactly its seeds.

  \<^emph>\<open>Findings.\<close>  The spec calls the settings immutable after load, but the code
  makes them ordinary module globals.
  \<^item> Any client can assign (\<open>SetAttr\<close>) or delete (\<open>DelAttr\<close>) a setting, so C3 and C5
    hold only for clients that never write.
  \<^item> Consumers that use \<open>from config import X\<close> hold copies (C8).  After one write,
    these readers and the attribute readers of the same process see different values.
    The witness of C8 shows 5001 against 8000.
  The search URL uses \<open>localhost\<close> where the other services use compose service names,
  which the spec leaves open.

  \<^emph>\<open>Bounds and fuel.\<close>  No fuel is needed: every function is structurally recursive
  or terminates by \<open>fun\<close>'s own measure (\<open>show_dec\<close> on \<open>n div 10\<close>).  The module has
  no loops, so the development has no termination claims.  The parsers loop only over
  the characters or comma-separated entries of a value, by structural recursion.
  Ports are 16-bit words, the width of the socket layer, and a decimal port is
  checked, not reduced modulo \<open>2^16\<close> (C4, C9).

  \<^emph>\<open>Not modelled.\<close>
  \<^item> The consumers' own code (Flask app, Kafka producer and consumer, Spark job,
    Elasticsearch client) is not in the repository.  Their parsing of the values
    appears only as the broker-address split and the port checks.  Of the MongoDB
    driver, percent-decoding, \<open>mongodb+srv://\<close> and the meaning of options and user
    info are left out.
  \<^item> Module objects hold only \<open>__name__\<close> of CPython's private module attributes.
    \<open>__doc__\<close>, \<open>__file__\<close>, \<open>__spec__\<close>, \<open>__loader__\<close>, \<open>__package__\<close>,
    \<open>__cached__\<close> and \<open>__builtins__\<close> are left out, and so are a client module's own
    private attributes and definitions.  The claims speak only of the settings and of
    public names.
  \<^item> \<open>config_program\<close> holds only this repository's module, so imports of other modules
    are outside the model.
  \<^item> Reload finds the module under the name it is reloaded by and does not reset
    private attributes.  CPython reads \<open>__spec__.name\<close> or \<open>__name__\<close>, which agree
    until a client writes them.
  \<^item> Python's import lock and a failing module body are left out: this body cannot
    fail, and an import is one atomic step.  Packages and dotted names are left out:
    the repository has no \<open>__init__.py\<close>.  \<open>__all__\<close> is left out, since \<open>config.py\<close>
    does not define it.  Aliased imports (\<open>import config as cfg\<close>) are left out.
  \<^item> Threads are modelled in pairs.  Python's \<open>int()\<close> and \<open>str.isdigit()\<close> accept
    more spellings than the ASCII digits modelled here.  The source's comments are not
    part of the behaviour.
  Every line of \<open>config.py\<close> is modelled.  What remains outside is the consumers' own
  code, which the repository does not contain.
\<close>

subsection \<open>Properties across components\<close>

text \<open>
  C4. What the consumers receive through the import system is usable: in any state
  reached by imports, reads and reloads without attribute assignment, the broker
  address a client reads after \<open>import config\<close> is a string that splits into host
  \<open>kafka\<close> and port 9092, and the port the web server reads is an integer that binds
  to the 16-bit port 5001.
\<close>

theorem consumer_reads_are_usable:
  "reachable config_program (\<lambda>o1. \<not> mutates o1) s \<Longrightarrow>
   (let s' = snd (interp_step config_program (Import ''config'') s) in
      (case fst (interp_step config_program (GetAttr ''config'' ''KAFKA_BOOTSTRAP_SERVERS'') s') of
         Inr (RValue (PyStr v)) \<Rightarrow> parse_hostport v = Some (''kafka'', 9092)
       | _ \<Rightarrow> False) \<and>
      (case fst (interp_step config_program (GetAttr ''config'' ''FLASK_PORT'') s') of
         Inr (RValue (PyInt p)) \<Rightarrow> bind_port p = Some 5001
       | _ \<Rightarrow> False))"
proof -
  assume r: "reachable config_program (\<lambda>o1. \<not> mutates o1) s"
  obtain a s' where h: "import_module config_program ''config'' s = Inr (a, s')"
    using import_config_Inr by blast
  note loaded = config_after_import [OF r h]
  have kafka: "config_namespace ''config'' ''KAFKA_BOOTSTRAP_SERVERS'' = Some (PyStr KAFKA_BOOTSTRAP_SERVERS)"
    and port: "config_namespace ''config'' ''FLASK_PORT'' = Some (PyInt FLASK_PORT)"
    by (simp_all add: config_namespace_assign config_body_def)
  from h loaded kafka port show ?thesis
    by (simp add: Let_def loaded_def kafka_bootstrap_parsed flask_port_bound)
qed

theorem consumer_reads_are_usable_witness:
  "(let s' = snd (interp_step config_program (Import ''config'') interp0) in
      (case fst (interp_step config_program (GetAttr ''config'' ''KAFKA_BOOTSTRAP_SERVERS'') s') of
         Inr (RValue (PyStr v)) \<Rightarrow> parse_hostport v = Some (''kafka'', 9092)
       | _ \<Rightarrow> False) \<and>
      (case fst (interp_step config_program (GetAttr ''config'' ''FLASK_PORT'') s') of
         Inr (RValue (PyInt p)) \<Rightarrow> bind_port p = Some 5001
       | _ \<Rightarrow> False))"
  by (rule consumer_reads_are_usable [OF reachable.start])

end
